theory Spec2Isabelle
  imports Complex_Main
begin

section \<open>JavaScript values\<close>

text \<open>
  A JavaScript string is a sequence of UTF-16 code units; \<open>.length\<close> counts code units.
  Code units are modelled as natural numbers (the real ones are below 65536): every
  function below is defined on all of them, so a statement about every list of numbers is
  in particular a statement about every JavaScript string.
\<close>

type_synonym jsstring = "nat list"

definition js :: "string \<Rightarrow> jsstring" where
  "js s = map of_char s"

text \<open>
  A JavaScript number is a binary64 value. Every finite binary64 value is a rational, and
  the comparisons and integrality tests of the source are exact on it; \<open>Fin 0\<close> stands
  for both zeros, which no operation of the source tells apart.
\<close>

datatype jsnum = NaN | PosInf | NegInf | Fin rat

datatype jsval =
    JUndefined
  | JNull
  | JBool bool
  | JNum jsnum
  | JStr jsstring
  | JArr "jsval list"
  | JObj "(jsstring \<times> jsval) list"

datatype jstype = TUndefined | TObject | TBoolean | TNumber | TString

fun typeof :: "jsval \<Rightarrow> jstype" where
  "typeof JUndefined = TUndefined"
| "typeof JNull = TObject"
| "typeof (JBool _) = TBoolean"
| "typeof (JNum _) = TNumber"
| "typeof (JStr _) = TString"
| "typeof (JArr _) = TObject"
| "typeof (JObj _) = TObject"

fun num_truthy :: "jsnum \<Rightarrow> bool" where
  "num_truthy NaN = False"
| "num_truthy (Fin q) = (q \<noteq> 0)"
| "num_truthy _ = True"

fun truthy :: "jsval \<Rightarrow> bool" where
  "truthy JUndefined = False"
| "truthy JNull = False"
| "truthy (JBool b) = b"
| "truthy (JNum n) = num_truthy n"
| "truthy (JStr s) = (s \<noteq> [])"
| "truthy (JArr _) = True"
| "truthy (JObj _) = True"

text \<open>\<open>a <= 0\<close> and \<open>a > c\<close> on numbers: every comparison with \<open>NaN\<close> is false.\<close>

fun num_le_zero :: "jsnum \<Rightarrow> bool" where
  "num_le_zero NaN = False"
| "num_le_zero PosInf = False"
| "num_le_zero NegInf = True"
| "num_le_zero (Fin q) = (q \<le> 0)"

fun num_gt :: "jsnum \<Rightarrow> rat \<Rightarrow> bool" where
  "num_gt NaN c = False"
| "num_gt PosInf c = True"
| "num_gt NegInf c = False"
| "num_gt (Fin q) c = (q > c)"

fun Number_isFinite :: "jsnum \<Rightarrow> bool" where
  "Number_isFinite (Fin _) = True"
| "Number_isFinite _ = False"

fun Number_isInteger :: "jsnum \<Rightarrow> bool" where
  "Number_isInteger (Fin q) = (of_int \<lfloor>q\<rfloor> = q)"
| "Number_isInteger _ = False"

section \<open>Rate limiter (strict revision)\<close>

text \<open>
  \<open>SECURITY_CONFIG\<close> of the strict revision; times are \<open>Date.now()\<close> milliseconds.
\<close>

definition MAX_REQUEST_SIZE :: nat where "MAX_REQUEST_SIZE = 512000"
definition RATE_LIMIT_WINDOW :: int where "RATE_LIMIT_WINDOW = 60000"
definition MAX_REQUESTS_PER_IP :: nat where "MAX_REQUESTS_PER_IP = 5"

type_synonym rate_store = "jsstring \<rightharpoonup> int list"

text \<open>
  \<open>checkRateLimit\<close>: the module-level \<open>rateLimitStore\<close> is passed in and returned; \<open>now\<close>
  is the value of \<open>Date.now()\<close>.
\<close>

definition checkRateLimit :: "int \<Rightarrow> rate_store \<Rightarrow> jsstring \<Rightarrow> bool \<times> rate_store" where
  "checkRateLimit now store clientId =
     (let windowStart = now - RATE_LIMIT_WINDOW;
          store1 = (if store clientId = None then store(clientId \<mapsto> []) else store);
          requests = (case store1 clientId of Some r \<Rightarrow> r | None \<Rightarrow> []);
          validRequests = filter (\<lambda>timestamp. timestamp > windowStart) requests
      in if length validRequests \<ge> MAX_REQUESTS_PER_IP then (False, store1)
         else (True, store1(clientId \<mapsto> validRequests @ [now])))"

text \<open>A client calling at the given times, one call after the other.\<close>

fun calls :: "rate_store \<Rightarrow> jsstring \<Rightarrow> int list \<Rightarrow> bool list \<times> rate_store" where
  "calls store clientId [] = ([], store)"
| "calls store clientId (now # nows) =
     (let (ok, store') = checkRateLimit now store clientId;
          (oks, store'') = calls store' clientId nows
      in (ok # oks, store''))"

section \<open>Thrown values and property access\<close>

text \<open>
  What a \<open>throw\<close> carries: a plain \<open>Error\<close> with its message, or the error object of the
  HTTP client, which has a message and, when the gateway answered, the response (status
  and decoded body).
\<close>

datatype js_error =
    Error jsstring
  | AxiosError jsstring "(nat \<times> jsval) option"

fun message :: "js_error \<Rightarrow> jsstring" where
  "message (Error m) = m"
| "message (AxiosError m _) = m"

fun response_of :: "js_error \<Rightarrow> (nat \<times> jsval) option" where
  "response_of (Error _) = None"
| "response_of (AxiosError _ r) = r"

text \<open>
  The built-ins of the JavaScript runtime that the handlers call and the source does not
  define are parameters of the model: \<open>JSON.parse\<close> (applied to any value, as the source
  does; \<open>Inl\<close> is the error it throws), \<open>JSON.stringify\<close> (\<open>None\<close> is the result
  \<open>undefined\<close>), the text of a number inside a template literal, and the message of the
  \<open>TypeError\<close> raised by a property read on \<open>null\<close> or \<open>undefined\<close>. So is the number
  of redirects that the HTTP client follows when the source sets no limit, which depends on
  the version of the library.
\<close>

record runtime =
  JSON_parse :: "jsval \<Rightarrow> js_error + jsval"
  JSON_stringify :: "jsval \<Rightarrow> jsstring option"
  Number_toString :: "jsnum \<Rightarrow> jsstring"
  TypeError_message :: "jsval \<Rightarrow> jsstring \<Rightarrow> jsstring"
  maxRedirects :: nat

text \<open>
  \<open>v.k\<close> for the property names the source reads (\<open>transactionId\<close>, \<open>amount\<close>,
  \<open>amountCents\<close>, \<open>token\<close>, \<open>detail\<close>, \<open>message\<close>), none of which is a built-in
  property of a primitive or of an array: reading it from \<open>null\<close> or \<open>undefined\<close> throws,
  from an object it gives the stored value or \<open>undefined\<close>, from anything else
  \<open>undefined\<close>.
\<close>

fun get_prop :: "runtime \<Rightarrow> jsval \<Rightarrow> jsstring \<Rightarrow> js_error + jsval" where
  "get_prop rt JUndefined k = Inl (Error (TypeError_message rt JUndefined k))"
| "get_prop rt JNull k = Inl (Error (TypeError_message rt JNull k))"
| "get_prop rt (JObj kvs) k = Inr (case map_of kvs k of Some v \<Rightarrow> v | None \<Rightarrow> JUndefined)"
| "get_prop rt _ k = Inr JUndefined"

text \<open>\<open>v?.k\<close>: \<open>undefined\<close> instead of the throw.\<close>

fun opt_prop :: "jsval \<Rightarrow> jsstring \<Rightarrow> jsval" where
  "opt_prop (JObj kvs) k = (case map_of kvs k of Some v \<Rightarrow> v | None \<Rightarrow> JUndefined)"
| "opt_prop _ k = JUndefined"

text \<open>\<open>a || b\<close>\<close>

definition js_or :: "jsval \<Rightarrow> jsval \<Rightarrow> jsval" where
  "js_or a b = (if truthy a then a else b)"

text \<open>
  Conversion to a string inside a template literal: \<open>Array.prototype.join\<close> writes
  \<open>null\<close> and \<open>undefined\<close> elements as the empty string.
\<close>

fun join_comma :: "jsstring list \<Rightarrow> jsstring" where
  "join_comma [] = []"
| "join_comma [s] = s"
| "join_comma (s # t # ts) = s @ 44 # join_comma (t # ts)"

fun ToString :: "runtime \<Rightarrow> jsval \<Rightarrow> jsstring" where
  "ToString rt JUndefined = js ''undefined''"
| "ToString rt JNull = js ''null''"
| "ToString rt (JBool b) = (if b then js ''true'' else js ''false'')"
| "ToString rt (JNum n) = Number_toString rt n"
| "ToString rt (JStr s) = s"
| "ToString rt (JArr vs) =
     join_comma (map (\<lambda>v. if v = JUndefined \<or> v = JNull then [] else ToString rt v) vs)"
| "ToString rt (JObj _) = js ''[object Object]''"

section \<open>Input validator\<close>

subsection \<open>String primitives\<close>

text \<open>The characters \<open>String.prototype.trim\<close> removes: WhiteSpace and LineTerminator.\<close>

definition is_ws :: "nat \<Rightarrow> bool" where
  "is_ws c \<longleftrightarrow>
     c \<in> {9, 10, 11, 12, 13, 32, 160, 5760, 8232, 8233, 8239, 8287, 12288, 65279}
     \<or> (8192 \<le> c \<and> c \<le> 8202)"

definition trim :: "jsstring \<Rightarrow> jsstring" where
  "trim s = rev (dropWhile is_ws (rev (dropWhile is_ws s)))"

text \<open>The class \<open>[<>"'&\x00-\x1f\x7f-\x9f]\<close>.\<close>

definition is_stripped :: "nat \<Rightarrow> bool" where
  "is_stripped c \<longleftrightarrow> c \<in> {60, 62, 34, 39, 38} \<or> c \<le> 31 \<or> (127 \<le> c \<and> c \<le> 159)"

text \<open>
  Matching under the \<open>i\<close> flag (without \<open>u\<close>): a character outside ASCII never matches
  an ASCII letter of the pattern, so folding \<open>A\<close>..\<open>Z\<close> is exact.
\<close>

definition lower :: "nat \<Rightarrow> nat" where
  "lower c = (if 65 \<le> c \<and> c \<le> 90 then c + 32 else c)"

text \<open>
  \<open>.replace(/javascript:/gi, '')\<close>: the matches are found from left to right, do not
  overlap, and the result is not scanned again.
\<close>

fun remove_javascript :: "jsstring \<Rightarrow> jsstring" where
  "remove_javascript [] = []"
| "remove_javascript (c # cs) =
     (if map lower (take 11 (c # cs)) = js ''javascript:''
      then remove_javascript (drop 10 cs)
      else c # remove_javascript cs)"

text \<open>The class \<open>\w\<close>\<close>

definition is_word :: "nat \<Rightarrow> bool" where
  "is_word c \<longleftrightarrow> (48 \<le> c \<and> c \<le> 57) \<or> (65 \<le> c \<and> c \<le> 90) \<or> c = 95 \<or> (97 \<le> c \<and> c \<le> 122)"

text \<open>
  A match of \<open>/on\w+=/i\<close> at the head of the string, giving what follows the match:
  \<open>=\<close> is not a word character, so the greedy \<open>\w+\<close> can only end the match at the end of
  the longest run of word characters.
\<close>

fun match_on :: "jsstring \<Rightarrow> jsstring option" where
  "match_on (c # d # rest) =
     (if lower c = 111 \<and> lower d = 110
      then (case dropWhile is_word rest of
              e # after \<Rightarrow> if takeWhile is_word rest \<noteq> [] \<and> e = 61 then Some after else None
            | [] \<Rightarrow> None)
      else None)"
| "match_on _ = None"

lemma match_on_shorter: "match_on s = Some r \<Longrightarrow> length r < length s"
proof (cases s rule: match_on.cases)
  case (1 c d rest)
  assume m: "match_on s = Some r"
  have "length (dropWhile is_word rest) \<le> length rest"
    by (rule length_dropWhile_le)
  with m 1 show ?thesis
    by (auto split: if_splits list.splits)
qed simp_all

function remove_on :: "jsstring \<Rightarrow> jsstring" where
  "remove_on [] = []"
| "remove_on (c # cs) =
     (case match_on (c # cs) of
        Some after \<Rightarrow> remove_on after
      | None \<Rightarrow> c # remove_on cs)"
  by pat_completeness auto
termination
  by (relation "measure length") (auto dest: match_on_shorter)

subsection \<open>Strict revision\<close>

definition sanitizeInput :: "jsval \<Rightarrow> nat \<Rightarrow> js_error + jsstring" where
  "sanitizeInput input maxLength =
     (case input of
        JStr s \<Rightarrow>
          (let sanitized =
                 take maxLength (remove_on (remove_javascript
                   (filter (\<lambda>c. \<not> is_stripped c) (trim s))))
           in if length sanitized = 0
              then Inl (Error (js ''Input cannot be empty after sanitization''))
              else Inr sanitized)
      | _ \<Rightarrow> Inl (Error (js ''Input must be a string'')))"

text \<open>The class \<open>[A-Za-z0-9_-]\<close>; \<open>^\<close> and \<open>$\<close> make the test one on the whole string.\<close>

definition is_id_char :: "nat \<Rightarrow> bool" where
  "is_id_char c \<longleftrightarrow>
     (65 \<le> c \<and> c \<le> 90) \<or> (97 \<le> c \<and> c \<le> 122) \<or> (48 \<le> c \<and> c \<le> 57) \<or> c = 95 \<or> c = 45"

definition id_regex_test :: "jsstring \<Rightarrow> bool" where
  "id_regex_test s \<longleftrightarrow> s \<noteq> [] \<and> list_all is_id_char s"

definition validateTransactionId :: "jsval \<Rightarrow> js_error + jsstring" where
  "validateTransactionId transactionId =
     (case transactionId of
        JStr s \<Rightarrow>
          if length s < 5 \<or> length s > 50
          then Inl (Error (js ''Transaction ID must be 5-50 characters''))
          else if \<not> id_regex_test s
          then Inl (Error (js ''Transaction ID contains invalid characters''))
          else sanitizeInput (JStr s) 50
      | _ \<Rightarrow> Inl (Error (js ''Transaction ID must be a string'')))"

definition validateAmount :: "jsval \<Rightarrow> js_error + jsnum" where
  "validateAmount amount =
     (case amount of
        JNum a \<Rightarrow>
          if \<not> Number_isFinite a then Inl (Error (js ''Amount must be a finite number''))
          else if num_le_zero a then Inl (Error (js ''Amount must be positive''))
          else if num_gt a 99999999 then Inl (Error (js ''Amount exceeds maximum limit''))
          else if \<not> Number_isInteger a then Inl (Error (js ''Amount must be an integer (piasters)''))
          else Inr a
      | _ \<Rightarrow> Inl (Error (js ''Amount must be a finite number'')))"

subsection \<open>Static-bearer revision with the basic validation\<close>

definition sanitizeInput_basic :: "jsval \<Rightarrow> jsval" where
  "sanitizeInput_basic input =
     (case input of
        JStr s \<Rightarrow> JStr (filter (\<lambda>c. c \<noteq> 60 \<and> c \<noteq> 62) (trim s))
      | _ \<Rightarrow> input)"

definition validateTransactionId_basic :: "jsval \<Rightarrow> js_error + jsval" where
  "validateTransactionId_basic transactionId =
     (case transactionId of
        JStr s \<Rightarrow>
          if length s < 1 \<or> length s > 100
          then Inl (Error (js ''Invalid transaction ID: must be a string between 1-100 characters''))
          else Inr (sanitizeInput_basic (JStr s))
      | _ \<Rightarrow> Inl (Error (js ''Invalid transaction ID: must be a string between 1-100 characters'')))"

definition validateAmount_basic :: "jsval \<Rightarrow> js_error + jsnum" where
  "validateAmount_basic amount =
     (case amount of
        JNum a \<Rightarrow>
          if num_le_zero a \<or> num_gt a 1000000
          then Inl (Error (js ''Invalid amount: must be a positive number less than 1,000,000''))
          else Inr a
      | _ \<Rightarrow> Inl (Error (js ''Invalid amount: must be a positive number less than 1,000,000'')))"

section \<open>Number arithmetic of the major-unit revisions\<close>

text \<open>
  \<open>amount * 100\<close> is a binary64 multiplication: the exact product, rounded to the nearest
  binary64 value, ties to even. \<open>binary64\<close> is that rounding on the rationals: 53
  significant bits, exponents from -1022 (below it the spacing stays \<open>2^-1074\<close>) to
  1023, overflow to infinity (the rounded value reaches \<open>2^1024\<close> when the exponent is
  above 1023, or is 1023 with the significand rounded up to \<open>2^53\<close>).
\<close>

function bitlen :: "int \<Rightarrow> nat" where
  "bitlen n = (if n \<le> 0 then 0 else Suc (bitlen (n div 2)))"
  by pat_completeness auto
termination
  by (relation "measure nat") auto

declare bitlen.simps [simp del]

definition pow2 :: "int \<Rightarrow> rat" where
  "pow2 e = (if 0 \<le> e then 2 ^ nat e else 1 / 2 ^ nat (- e))"

text \<open>\<open>ilog2 a\<close> is the \<open>e\<close> with \<open>2^e \<le> a < 2^(e+1)\<close>, for \<open>a > 0\<close>.\<close>

definition ilog2 :: "rat \<Rightarrow> int" where
  "ilog2 a =
     (let (p, q) = quotient_of a;
          e = int (bitlen p) - int (bitlen q)
      in if pow2 e \<le> a then e else e - 1)"

definition round_half_even :: "rat \<Rightarrow> int" where
  "round_half_even m =
     (let f = \<lfloor>m\<rfloor>; d = m - of_int f
      in if d < 1 / 2 then f
         else if 1 / 2 < d then f + 1
         else if even f then f else f + 1)"

definition binary64 :: "rat \<Rightarrow> jsnum" where
  "binary64 x =
     (if x = 0 then Fin 0
      else let a = \<bar>x\<bar>;
               e = max (ilog2 a) (- 1022);
               q = pow2 (e - 52);
               n = round_half_even (a / q)
           in if 1023 < e \<or> (e = 1023 \<and> n = 2 ^ 53)
              then (if 0 < x then PosInf else NegInf)
              else Fin (if 0 < x then of_int n * q else - (of_int n * q)))"

fun num_sgn :: "jsnum \<Rightarrow> int" where
  "num_sgn PosInf = 1"
| "num_sgn NegInf = - 1"
| "num_sgn (Fin q) = (if 0 < q then 1 else if q < 0 then - 1 else 0)"
| "num_sgn NaN = 0"

definition js_times :: "jsnum \<Rightarrow> jsnum \<Rightarrow> jsnum" where
  "js_times x y =
     (case (x, y) of
        (Fin a, Fin b) \<Rightarrow> binary64 (a * b)
      | _ \<Rightarrow>
          if x = NaN \<or> y = NaN then NaN
          else let s = num_sgn x * num_sgn y
               in if s = 0 then NaN else if 0 < s then PosInf else NegInf)"

text \<open>
  \<open>Math.round\<close>: the nearest integer, a tie going up. (For a finite argument the sum
  below is exact here, and the integer is a binary64 value.)
\<close>

fun Math_round :: "jsnum \<Rightarrow> jsnum" where
  "Math_round (Fin q) = Fin (of_int \<lfloor>q + 1 / 2\<rfloor>)"
| "Math_round n = n"

section \<open>Gateway client\<close>

text \<open>
  The requests the handlers send, with the fields the source puts in them:
  \<open>POST /auth/tokens\<close> with \<open>{ api_key }\<close>; \<open>POST /acceptance/capture\<close> with
  \<open>{ auth_token, transaction_id, amount_cents }\<close> (token exchange); the same endpoint
  with \<open>{ transaction_id, amount_cents }\<close> and the header \<open>Authorization\<close> (static
  bearer). The calls to \<open>log\<close> and \<open>error\<close> are left out of the model.

  What the gateway does with a request: it answers with a status and a body (decoded by
  the HTTP client: the JSON value, or the text when it is not JSON); or it answers with a
  status, a body and a \<open>Location\<close> header, and then the outcome of the request to that
  location is given too; or the exchange fails without an answer (connection failure,
  body over the size limit) and the client has only its own message; or the gateway
  never answers.
\<close>

datatype outbound =
    AuthTokens jsstring
  | CaptureWithToken jsval jsval jsnum
  | CaptureWithHeader jsstring jsval jsnum

datatype http_outcome =
    HttpResponse nat jsval
  | Redirect nat jsval http_outcome
  | NoResponse jsstring
  | Silent

type_synonym gateway = "outbound \<Rightarrow> http_outcome"

text \<open>How an exchange ends for the client, when it ends: with an answer, or without one.\<close>

datatype exchange_end =
    Answered nat jsval
  | Failed jsstring

text \<open>
  A client that follows redirects (the default of the HTTP client) requests the location
  of an answer with a status from 300 to 399, at most as many times as its limit allows,
  and fails without an answer beyond it. A client created with \<open>maxRedirects: 0\<close> takes
  such an answer as it is. \<open>None\<close> is the exchange that never ends.
\<close>

fun follow :: "nat \<Rightarrow> http_outcome \<Rightarrow> exchange_end option" where
  "follow n (HttpResponse status data) = Some (Answered status data)"
| "follow n (NoResponse m) = Some (Failed m)"
| "follow n Silent = None"
| "follow n (Redirect status data next) =
     (if 300 \<le> status \<and> status < 400
      then (case n of
              0 \<Rightarrow> Some (Failed (js ''Maximum number of redirects exceeded''))
            | Suc m \<Rightarrow> follow m next)
      else Some (Answered status data))"

fun unfollowed :: "http_outcome \<Rightarrow> exchange_end option" where
  "unfollowed (HttpResponse status data) = Some (Answered status data)"
| "unfollowed (NoResponse m) = Some (Failed m)"
| "unfollowed Silent = None"
| "unfollowed (Redirect status data next) = Some (Answered status data)"

text \<open>
  A client created with \<open>timeout: ms\<close> ends an exchange that has not ended by then, with
  its own message and no answer.
\<close>

definition timed :: "jsstring \<Rightarrow> exchange_end option \<Rightarrow> exchange_end" where
  "timed ms e =
     (case e of
        None \<Rightarrow> Failed (js ''timeout of '' @ ms @ js ''ms exceeded'')
      | Some x \<Rightarrow> x)"

text \<open>
  The promise of \<open>post\<close>: it resolves with the answer when \<open>validateStatus\<close> accepts the
  status (the default, and the one the strict client sets, accept 200 to 299), and rejects
  with an error that carries the answer otherwise.
\<close>

definition validateStatus :: "nat \<Rightarrow> bool" where
  "validateStatus status \<longleftrightarrow> 200 \<le> status \<and> status < 300"

definition settle :: "runtime \<Rightarrow> exchange_end \<Rightarrow> js_error + nat \<times> jsval" where
  "settle rt e =
     (case e of
        Failed m \<Rightarrow> Inl (AxiosError m None)
      | Answered status data \<Rightarrow>
          if validateStatus status then Inr (status, data)
          else Inl (AxiosError
                 (js ''Request failed with status code '' @ Number_toString rt (Fin (of_nat status)))
                 (Some (status, data))))"

text \<open>
  \<open>axios.post\<close> of the token-exchange revisions, which pass no configuration: redirects
  are followed and there is no timeout, so the call does not return (\<open>None\<close>) when the
  exchange never ends.
\<close>

definition axios_post :: "runtime \<Rightarrow> http_outcome \<Rightarrow> (js_error + nat \<times> jsval) option" where
  "axios_post rt outcome = map_option (settle rt) (follow (maxRedirects rt) outcome)"

text \<open>\<open>err.response?.data?.k\<close>\<close>

definition response_data_prop :: "js_error \<Rightarrow> jsstring \<Rightarrow> jsval" where
  "response_data_prop err k =
     (case response_of err of None \<Rightarrow> JUndefined | Some (status, data) \<Rightarrow> opt_prop data k)"

text \<open>\<open>err.response?.data?.detail || err.response?.data?.message || err.message\<close>\<close>

definition catch_errMsg :: "js_error \<Rightarrow> jsval" where
  "catch_errMsg err =
     js_or (response_data_prop err (js ''detail''))
       (js_or (response_data_prop err (js ''message'')) (JStr (message err)))"

definition stringify_val :: "runtime \<Rightarrow> jsval \<Rightarrow> jsval" where
  "stringify_val rt v = (case JSON_stringify rt v of None \<Rightarrow> JUndefined | Some s \<Rightarrow> JStr s)"

definition invalid_capture_input :: "jsval \<Rightarrow> jsnum \<Rightarrow> bool" where
  "invalid_capture_input transactionId amountPiasters \<longleftrightarrow>
     \<not> truthy transactionId \<or> \<not> num_truthy amountPiasters \<or> num_le_zero amountPiasters"

subsection \<open>Token exchange, failures as \<open>false\<close> and \<open>null\<close>\<close>

text \<open>
  Each function returns the requests it sent together with its result; \<open>None\<close> is the
  call that does not return.
\<close>

definition getAuthToken_loose ::
  "runtime \<Rightarrow> gateway \<Rightarrow> jsstring option \<Rightarrow> (outbound list \<times> jsval) option" where
  "getAuthToken_loose rt gw apiKey =
     (case apiKey of
        None \<Rightarrow> Some ([], JNull)
      | Some k \<Rightarrow>
          if k = [] then Some ([], JNull)
          else (case axios_post rt (gw (AuthTokens k)) of
                  None \<Rightarrow> None
                | Some (Inr (status, data)) \<Rightarrow>
                    Some ([AuthTokens k],
                          if truthy data \<and> truthy (opt_prop data (js ''token''))
                          then opt_prop data (js ''token'')
                          else JNull)
                | Some (Inl err) \<Rightarrow> Some ([AuthTokens k], JNull)))"

definition captureTransaction_loose ::
  "runtime \<Rightarrow> gateway \<Rightarrow> jsval \<Rightarrow> jsval \<Rightarrow> jsnum \<Rightarrow> (outbound list \<times> bool) option" where
  "captureTransaction_loose rt gw authToken transactionId amountPiasters =
     (if invalid_capture_input transactionId amountPiasters then Some ([], False)
      else (case axios_post rt (gw (CaptureWithToken authToken transactionId amountPiasters)) of
              None \<Rightarrow> None
            | Some (Inr (status, data)) \<Rightarrow>
                Some ([CaptureWithToken authToken transactionId amountPiasters],
                      200 \<le> status \<and> status < 300 \<and> truthy data)
            | Some (Inl err) \<Rightarrow>
                Some ([CaptureWithToken authToken transactionId amountPiasters], False)))"

subsection \<open>Token exchange, failures thrown\<close>

definition getAuthToken_token ::
  "runtime \<Rightarrow> gateway \<Rightarrow> jsstring option \<Rightarrow> (outbound list \<times> (js_error + jsval)) option" where
  "getAuthToken_token rt gw apiKey =
     (case apiKey of
        None \<Rightarrow> Some ([], Inl (Error (js ''Server configuration error: Missing API Key.'')))
      | Some k \<Rightarrow>
          if k = [] then Some ([], Inl (Error (js ''Server configuration error: Missing API Key.'')))
          else (case axios_post rt (gw (AuthTokens k)) of
                  None \<Rightarrow> None
                | Some posted \<Rightarrow>
                    Some ([AuthTokens k],
                          case (case posted of
                                  Inr (status, data) \<Rightarrow>
                                    if truthy data \<and> truthy (opt_prop data (js ''token''))
                                    then Inr (opt_prop data (js ''token''))
                                    else Inl (Error (js ''Paymob Auth Failed: '' @
                                           ToString rt (if truthy data then stringify_val rt data
                                                        else JStr (js ''Invalid auth response''))))
                                | Inl err \<Rightarrow> Inl err) of
                            Inr token \<Rightarrow> Inr token
                          | Inl err \<Rightarrow>
                              Inl (Error (js ''Paymob Auth Request Failed: '' @
                                ToString rt (js_or (response_data_prop err (js ''message''))
                                  (js_or (response_data_prop err (js ''detail'')) (JStr (message err)))))))))"

definition captureTransaction_token ::
  "runtime \<Rightarrow> gateway \<Rightarrow> jsval \<Rightarrow> jsval \<Rightarrow> jsnum \<Rightarrow> (outbound list \<times> (js_error + bool)) option" where
  "captureTransaction_token rt gw authToken transactionId amountPiasters =
     (if invalid_capture_input transactionId amountPiasters
      then Some ([], Inl (Error (js ''Invalid input for capture: Missing transactionId or invalid amount.'')))
      else (case axios_post rt (gw (CaptureWithToken authToken transactionId amountPiasters)) of
              None \<Rightarrow> None
            | Some posted \<Rightarrow>
                Some ([CaptureWithToken authToken transactionId amountPiasters],
                      case (case posted of
                              Inr (status, data) \<Rightarrow>
                                if 200 \<le> status \<and> status < 300 then Inr True
                                else Inl (Error (js ''Paymob Capture Failed: '' @
                                       ToString rt (js_or (opt_prop data (js ''message''))
                                         (js_or (opt_prop data (js ''detail'')) (stringify_val rt data)))))
                            | Inl err \<Rightarrow> Inl err) of
                        Inr ok \<Rightarrow> Inr ok
                      | Inl err \<Rightarrow>
                          Inl (Error (js ''Paymob Capture Request Failed: '' @
                            ToString rt (catch_errMsg err))))))"

subsection \<open>Static bearer, success on 201 only\<close>

text \<open>
  The client of this revision is created with \<open>timeout: 30000\<close> and follows redirects; its
  interceptors log and pass the response or the error on.
\<close>

definition secureAxios_basic_post :: "runtime \<Rightarrow> http_outcome \<Rightarrow> js_error + nat \<times> jsval" where
  "secureAxios_basic_post rt outcome =
     settle rt (timed (js ''30000'') (follow (maxRedirects rt) outcome))"

definition captureTransaction_bearer ::
  "runtime \<Rightarrow> gateway \<Rightarrow> jsstring option \<Rightarrow> jsval \<Rightarrow> jsnum \<Rightarrow> outbound list \<times> (js_error + bool)" where
  "captureTransaction_bearer rt gw secretKey transactionId amountPiasters =
     (case secretKey of
        None \<Rightarrow> ([], Inl (Error (js ''Server configuration error: Missing Secret Key.'')))
      | Some k \<Rightarrow>
          if k = [] then ([], Inl (Error (js ''Server configuration error: Missing Secret Key.'')))
          else if invalid_capture_input transactionId amountPiasters
          then ([], Inl (Error (js ''Invalid input for capture: Missing transactionId or invalid amount.'')))
          else ([CaptureWithHeader (js ''Token '' @ k) (JStr (ToString rt transactionId)) amountPiasters],
                case (case secureAxios_basic_post rt
                             (gw (CaptureWithHeader (js ''Token '' @ k) (JStr (ToString rt transactionId)) amountPiasters)) of
                        Inr (status, data) \<Rightarrow>
                          if status = 201 then Inr True
                          else Inl (Error (js ''Paymob Capture Failed: '' @
                                 ToString rt (js_or (opt_prop data (js ''message''))
                                   (js_or (opt_prop data (js ''detail'')) (stringify_val rt data)))))
                      | Inl err \<Rightarrow> Inl err) of
                  Inr ok \<Rightarrow> Inr ok
                | Inl err \<Rightarrow>
                    Inl (Error (js ''Paymob Capture Request Failed: '' @ ToString rt (catch_errMsg err)))))"

subsection \<open>Strict revision\<close>

text \<open>
  \<open>secureAxios.post\<close>: the client is created with \<open>timeout: 10000\<close> and
  \<open>maxRedirects: 0\<close>, and its \<open>validateStatus\<close> accepts 200 to 299; the response
  interceptor refuses a body that is not an object and replaces every rejection by a plain
  \<open>Error\<close> chosen by the status (\<open>undefined\<close> when there is no response, and then no
  comparison holds). The request interceptor only adds two headers.
\<close>

definition well_formed :: "jsval \<Rightarrow> bool" where
  "well_formed data \<longleftrightarrow> truthy data \<and> typeof data = TObject"

definition secureAxios_post :: "runtime \<Rightarrow> http_outcome \<Rightarrow> js_error + nat \<times> jsval" where
  "secureAxios_post rt outcome =
     (case settle rt (timed (js ''10000'') (unfollowed outcome)) of
        Inr (status, data) \<Rightarrow>
          if \<not> well_formed data then Inl (Error (js ''Invalid capture response format''))
          else Inr (status, data)
      | Inl error \<Rightarrow>
          (case response_of error of
             None \<Rightarrow> Inl (Error (js ''Capture request failed''))
           | Some (status, data) \<Rightarrow>
               if status = 429 then Inl (Error (js ''Capture rate limit exceeded''))
               else if status \<ge> 500 then Inl (Error (js ''Capture service unavailable''))
               else if status = 401 \<or> status = 403 then Inl (Error (js ''Capture authentication failed''))
               else Inl (Error (js ''Capture request failed''))))"

definition captureTransaction ::
  "runtime \<Rightarrow> gateway \<Rightarrow> jsstring option \<Rightarrow> jsval \<Rightarrow> jsnum \<Rightarrow> outbound list \<times> (js_error + bool)" where
  "captureTransaction rt gw secretKey transactionId amountPiasters =
     (case secretKey of
        None \<Rightarrow> ([], Inl (Error (js ''Server configuration error: Missing Secret Key.'')))
      | Some k \<Rightarrow>
          if k = [] then ([], Inl (Error (js ''Server configuration error: Missing Secret Key.'')))
          else if invalid_capture_input transactionId amountPiasters
          then ([], Inl (Error (js ''Invalid input for capture: Missing transactionId or invalid amount.'')))
          else ([CaptureWithHeader (js ''Token '' @ k) (JStr (ToString rt transactionId)) amountPiasters],
                case (case secureAxios_post rt
                             (gw (CaptureWithHeader (js ''Token '' @ k) (JStr (ToString rt transactionId)) amountPiasters)) of
                        Inr (status, data) \<Rightarrow>
                          if \<not> well_formed data then Inl (Error (js ''Invalid capture response format''))
                          else if status = 200 \<or> status = 201 then Inr True
                          else Inl (Error (js ''Paymob Capture Failed: '' @
                                 ToString rt (js_or (opt_prop data (js ''message''))
                                   (js_or (opt_prop data (js ''detail'')) (JStr (js ''Capture failed''))))))
                      | Inl err \<Rightarrow> Inl err) of
                  Inr ok \<Rightarrow> Inr ok
                | Inl err \<Rightarrow>
                    Inl (Error (js ''Paymob Capture Request Failed: '' @ ToString rt (catch_errMsg err)))))"

section \<open>Request handlers\<close>

text \<open>
  The request as the hosting runtime passes it, the response given to \<open>res.json\<close> (a
  call without a status answers 200), and what the strict handler reads from its
  environment: the clock, the rate-limit store, the credential and the identifier drawn
  for the request.
\<close>

record request =
  req_method :: jsstring
  headers :: "jsstring \<rightharpoonup> jsstring"
  body :: jsval

record response =
  status :: nat
  success :: bool
  error :: "jsstring option"
  requestId :: "jsstring option"

definition res_json :: "bool \<Rightarrow> jsstring option \<Rightarrow> jsstring option \<Rightarrow> nat \<Rightarrow> response" where
  "res_json ok err rid code = \<lparr>status = code, success = ok, error = err, requestId = rid\<rparr>"

definition str_truthy :: "jsstring option \<Rightarrow> bool" where
  "str_truthy v \<longleftrightarrow> (case v of None \<Rightarrow> False | Some s \<Rightarrow> s \<noteq> [])"

text \<open>\<open>flowError.message || 'Capture process failed.'\<close>\<close>

definition flow_message :: "js_error \<Rightarrow> jsstring" where
  "flow_message flowError =
     (if message flowError \<noteq> [] then message flowError else js ''Capture process failed.'')"

subsection \<open>Major-unit revisions\<close>

text \<open>
  The body of the first \<open>try\<close> of the two token-exchange handlers, and the handlers:
  \<open>None\<close> is the invocation that never answers, because a call to the gateway does not
  return.
\<close>

definition parse_body_loose :: "runtime \<Rightarrow> jsval \<Rightarrow> js_error + jsval \<times> jsnum" where
  "parse_body_loose rt b =
     (if \<not> truthy b then Inl (Error (js ''Request body is missing.''))
      else case JSON_parse rt b of
        Inl e \<Rightarrow> Inl e
      | Inr bodyData \<Rightarrow>
          (case get_prop rt bodyData (js ''transactionId'') of
             Inl e \<Rightarrow> Inl e
           | Inr transactionId \<Rightarrow>
               (case get_prop rt bodyData (js ''amount'') of
                  Inl e \<Rightarrow> Inl e
                | Inr amount \<Rightarrow>
                    if \<not> truthy transactionId \<or> typeof transactionId \<noteq> TString
                    then Inl (Error (js ''Invalid transactionId received: '' @ ToString rt transactionId))
                    else (case amount of
                            JNum a \<Rightarrow>
                              if num_le_zero a
                              then Inl (Error (js ''Invalid amount received: '' @ ToString rt amount))
                              else Inr (transactionId, a)
                          | _ \<Rightarrow> Inl (Error (js ''Invalid amount received: '' @ ToString rt amount))))))"

definition handler_loose ::
  "runtime \<Rightarrow> gateway \<Rightarrow> jsstring option \<Rightarrow> request \<Rightarrow> (response \<times> outbound list) option" where
  "handler_loose rt gw apiKey req =
     (if \<not> str_truthy apiKey
      then Some (res_json False (Some (js ''Server configuration error.'')) None 500, [])
      else case parse_body_loose rt (body req) of
        Inl parseError \<Rightarrow>
          Some (res_json False (Some (js ''Invalid request body: '' @ message parseError)) None 400, [])
      | Inr (transactionId, amount) \<Rightarrow>
          (let amountPiasters = Math_round (js_times amount (Fin 100))
           in case getAuthToken_loose rt gw apiKey of
                None \<Rightarrow> None
              | Some (sent1, authToken) \<Rightarrow>
                  if \<not> truthy authToken
                  then Some (res_json False
                               (Some (flow_message (Error (js ''Paymob authentication failed.'')))) None 500,
                             sent1)
                  else (case captureTransaction_loose rt gw authToken transactionId amountPiasters of
                          None \<Rightarrow> None
                        | Some (sent2, captureSuccess) \<Rightarrow>
                            if \<not> captureSuccess
                            then Some (res_json False
                                         (Some (flow_message (Error (js ''Paymob capture API call failed.''))))
                                         None 500,
                                       sent1 @ sent2)
                            else Some (res_json True None None 200, sent1 @ sent2))))"

definition handler_token ::
  "runtime \<Rightarrow> gateway \<Rightarrow> jsstring option \<Rightarrow> request \<Rightarrow> (response \<times> outbound list) option" where
  "handler_token rt gw apiKey req =
     (case parse_body_loose rt (body req) of
        Inl parseError \<Rightarrow>
          Some (res_json False (Some (js ''Invalid request body: '' @ message parseError)) None 400, [])
      | Inr (transactionId, amount) \<Rightarrow>
          (let amountPiasters = Math_round (js_times amount (Fin 100))
           in case getAuthToken_token rt gw apiKey of
                None \<Rightarrow> None
              | Some (sent1, Inl flowError) \<Rightarrow>
                  Some (res_json False (Some (flow_message flowError)) None 500, sent1)
              | Some (sent1, Inr authToken) \<Rightarrow>
                  (case captureTransaction_token rt gw authToken transactionId amountPiasters of
                     None \<Rightarrow> None
                   | Some (sent2, Inl flowError) \<Rightarrow>
                       Some (res_json False (Some (flow_message flowError)) None 500, sent1 @ sent2)
                   | Some (sent2, Inr captureSuccess) \<Rightarrow>
                       Some (res_json True None None 200, sent1 @ sent2))))"

text \<open>The static-bearer handler with the basic validation.\<close>

definition parse_body_basic :: "runtime \<Rightarrow> jsval \<Rightarrow> js_error + jsval \<times> jsnum" where
  "parse_body_basic rt b =
     (if \<not> truthy b then Inl (Error (js ''Request body is missing.''))
      else case JSON_parse rt b of
        Inl e \<Rightarrow> Inl e
      | Inr bodyData \<Rightarrow>
          (case get_prop rt bodyData (js ''transactionId'') of
             Inl e \<Rightarrow> Inl e
           | Inr t \<Rightarrow>
               (case validateTransactionId_basic t of
                  Inl e \<Rightarrow> Inl e
                | Inr transactionId \<Rightarrow>
                    (case get_prop rt bodyData (js ''amount'') of
                       Inl e \<Rightarrow> Inl e
                     | Inr a \<Rightarrow>
                         (case validateAmount_basic a of
                            Inl e \<Rightarrow> Inl e
                          | Inr amount \<Rightarrow> Inr (transactionId, amount))))))"

definition handler_bearer :: "runtime \<Rightarrow> gateway \<Rightarrow> jsstring option \<Rightarrow> request \<Rightarrow> response \<times> outbound list" where
  "handler_bearer rt gw secretKey req =
     (if \<not> str_truthy secretKey
      then (res_json False (Some (js ''Server configuration error.'')) None 500, [])
      else case parse_body_basic rt (body req) of
        Inl parseError \<Rightarrow>
          (res_json False (Some (js ''Invalid request body: '' @ message parseError)) None 400, [])
      | Inr (transactionId, amount) \<Rightarrow>
          (let amountPiasters = Math_round (js_times amount (Fin 100))
           in case captureTransaction_bearer rt gw secretKey transactionId amountPiasters of
                (sent, Inl flowError) \<Rightarrow>
                  (res_json False (Some (flow_message flowError)) None 500, sent)
              | (sent, Inr ok) \<Rightarrow> (res_json True None None 200, sent)))"

subsection \<open>Strict revision\<close>

record world =
  Date_now :: int
  rateLimitStore :: rate_store
  PAYMOB_SECRET_KEY :: "jsstring option"
  uuid :: jsstring
  gateway :: gateway

text \<open>
  \<open>req.headers['x-forwarded-for'] || req.headers['x-real-ip'] || 'unknown'\<close>
\<close>

definition str_or :: "jsstring option \<Rightarrow> jsstring \<Rightarrow> jsstring" where
  "str_or v d = (case v of Some s \<Rightarrow> if s \<noteq> [] then s else d | None \<Rightarrow> d)"

definition clientId_of :: "request \<Rightarrow> jsstring" where
  "clientId_of req =
     str_or (headers req (js ''x-forwarded-for''))
       (str_or (headers req (js ''x-real-ip'')) (js ''unknown''))"

text \<open>
  \<open>Buffer.byteLength\<close> of a string is the length of its UTF-8 encoding: a surrogate pair
  takes four bytes, a lone surrogate is replaced by a three-byte character. Its argument
  here is the result of \<open>JSON.stringify\<close>; for \<open>undefined\<close> it throws a \<open>TypeError\<close>.
\<close>

definition unit_bytes :: "nat \<Rightarrow> nat" where
  "unit_bytes c = (if c < 128 then 1 else if c < 2048 then 2 else 3)"

fun utf8_length :: "jsstring \<Rightarrow> nat" where
  "utf8_length (c # d # cs) =
     (if 55296 \<le> c \<and> c < 56320 \<and> 56320 \<le> d \<and> d < 57344 then 4 + utf8_length cs
      else unit_bytes c + utf8_length (d # cs))"
| "utf8_length [c] = unit_bytes c"
| "utf8_length [] = 0"

definition Buffer_byteLength :: "jsstring option \<Rightarrow> js_error + nat" where
  "Buffer_byteLength v =
     (case v of
        None \<Rightarrow>
          Inl (Error (js ''The '' @ 34 # js ''string'' @ 34 #
                 js '' argument must be of type string or an instance of Buffer or ArrayBuffer. Received undefined''))
      | Some s \<Rightarrow> Inr (utf8_length s))"

text \<open>The body of the second \<open>try\<close>: parse, then validate both fields.\<close>

definition parse_body :: "runtime \<Rightarrow> jsval \<Rightarrow> js_error + jsstring \<times> jsnum" where
  "parse_body rt b =
     (if \<not> truthy b then Inl (Error (js ''Request body is missing.''))
      else case JSON_parse rt b of
        Inl e \<Rightarrow> Inl e
      | Inr bodyData \<Rightarrow>
          (case get_prop rt bodyData (js ''transactionId'') of
             Inl e \<Rightarrow> Inl e
           | Inr t \<Rightarrow>
               (case validateTransactionId t of
                  Inl e \<Rightarrow> Inl e
                | Inr transactionId \<Rightarrow>
                    (case get_prop rt bodyData (js ''amountCents'') of
                       Inl e \<Rightarrow> Inl e
                     | Inr a \<Rightarrow>
                         (case validateAmount a of
                            Inl e \<Rightarrow> Inl e
                          | Inr amountCents \<Rightarrow> Inr (transactionId, amountCents))))))"

text \<open>
  The outer \<open>try\<close> block: \<open>Inl\<close> is a fault that none of the inner \<open>catch\<close> clauses
  takes. The store is returned as the call to the rate limiter left it.
\<close>

definition handler_try ::
  "runtime \<Rightarrow> world \<Rightarrow> request \<Rightarrow> (js_error + response) \<times> rate_store \<times> outbound list" where
  "handler_try rt w req =
     (if req_method req \<noteq> js ''POST''
      then (Inr (res_json False (Some (js ''Method not allowed'')) None 405), rateLimitStore w, [])
      else let (allowed, store') = checkRateLimit (Date_now w) (rateLimitStore w) (clientId_of req)
           in if \<not> allowed
              then (Inr (res_json False (Some (js ''Too many capture requests'')) None 429), store', [])
              else case Buffer_byteLength (JSON_stringify rt (body req)) of
                Inl fault \<Rightarrow> (Inl fault, store', [])
              | Inr bodySize \<Rightarrow>
                  if bodySize > MAX_REQUEST_SIZE
                  then (Inr (res_json False (Some (js ''Request too large'')) None 413), store', [])
                  else if \<not> str_truthy (PAYMOB_SECRET_KEY w)
                  then (Inr (res_json False (Some (js ''Server configuration error.'')) None 500), store', [])
                  else case parse_body rt (body req) of
                    Inl parseError \<Rightarrow>
                      (Inr (res_json False (Some (js ''Invalid request body'')) None 400), store', [])
                  | Inr (transactionId, amountCents) \<Rightarrow>
                      (case captureTransaction rt (gateway w) (PAYMOB_SECRET_KEY w) (JStr transactionId) amountCents of
                         (sent, Inl flowError) \<Rightarrow>
                           (Inr (res_json False (Some (js ''Capture process failed'')) (Some (uuid w)) 500),
                            store', sent)
                       | (sent, Inr ok) \<Rightarrow>
                           (Inr (res_json True None (Some (uuid w)) 200), store', sent)))"

text \<open>
  The handler: the outer \<open>catch\<close> turns a fault of the block into a response. \<open>Inl\<close>
  would be a fault that reaches the caller.
\<close>

definition handler ::
  "runtime \<Rightarrow> world \<Rightarrow> request \<Rightarrow> (js_error + response) \<times> rate_store \<times> outbound list" where
  "handler rt w req =
     (case handler_try rt w req of
        (Inl mainError, store', sent) \<Rightarrow>
          (Inr (res_json False (Some (js ''Server error'')) (Some (uuid w)) 500), store', sent)
      | (Inr r, store', sent) \<Rightarrow> (Inr r, store', sent))"

subsection \<open>Strict revision, with a platform that can fault\<close>

text \<open>
  Above, \<open>res.json\<close> and the two statements that precede the outer \<open>try\<close>
  (\<open>crypto.randomUUID()\<close> and \<open>Date.now()\<close>) always return. Here they are the
  platform's: \<open>res.json\<close> may throw, synchronously, on the response it is given, and
  \<open>preamble\<close> is either the identifier drawn or the fault that one of the two statements
  raised. A \<open>res.json\<close> that throws inside the outer \<open>try\<close> block is caught as any
  other fault of the block: by the \<open>catch\<close> of the third \<open>try\<close> when it is the call that
  sends the success response, by the outer \<open>catch\<close> otherwise.
\<close>

record platform =
  res_json_fault :: "response \<Rightarrow> js_error option"
  preamble :: "js_error + jsstring"

definition respond :: "platform \<Rightarrow> response \<Rightarrow> js_error + response" where
  "respond p r = (case res_json_fault p r of Some fault \<Rightarrow> Inl fault | None \<Rightarrow> Inr r)"

definition handler_try_on ::
  "platform \<Rightarrow> runtime \<Rightarrow> world \<Rightarrow> request \<Rightarrow> (js_error + response) \<times> rate_store \<times> outbound list" where
  "handler_try_on p rt w req =
     (if req_method req \<noteq> js ''POST''
      then (respond p (res_json False (Some (js ''Method not allowed'')) None 405), rateLimitStore w, [])
      else let (allowed, store') = checkRateLimit (Date_now w) (rateLimitStore w) (clientId_of req)
           in if \<not> allowed
              then (respond p (res_json False (Some (js ''Too many capture requests'')) None 429), store', [])
              else case Buffer_byteLength (JSON_stringify rt (body req)) of
                Inl fault \<Rightarrow> (Inl fault, store', [])
              | Inr bodySize \<Rightarrow>
                  if bodySize > MAX_REQUEST_SIZE
                  then (respond p (res_json False (Some (js ''Request too large'')) None 413), store', [])
                  else if \<not> str_truthy (PAYMOB_SECRET_KEY w)
                  then (respond p (res_json False (Some (js ''Server configuration error.'')) None 500),
                        store', [])
                  else case parse_body rt (body req) of
                    Inl parseError \<Rightarrow>
                      (respond p (res_json False (Some (js ''Invalid request body'')) None 400), store', [])
                  | Inr (transactionId, amountCents) \<Rightarrow>
                      (case captureTransaction rt (gateway w) (PAYMOB_SECRET_KEY w) (JStr transactionId) amountCents of
                         (sent, Inl flowError) \<Rightarrow>
                           (respond p (res_json False (Some (js ''Capture process failed'')) (Some (uuid w)) 500),
                            store', sent)
                       | (sent, Inr ok) \<Rightarrow>
                           (case respond p (res_json True None (Some (uuid w)) 200) of
                              Inr r \<Rightarrow> (Inr r, store', sent)
                            | Inl flowError \<Rightarrow>
                                (respond p (res_json False (Some (js ''Capture process failed''))
                                              (Some (uuid w)) 500),
                                 store', sent))))"

text \<open>\<open>Inl\<close> is the fault that reaches the caller: the promise of the handler rejects.\<close>

definition handler_on ::
  "platform \<Rightarrow> runtime \<Rightarrow> world \<Rightarrow> request \<Rightarrow> (js_error + response) \<times> rate_store \<times> outbound list" where
  "handler_on p rt w req =
     (case preamble p of
        Inl fault \<Rightarrow> (Inl fault, rateLimitStore w, [])
      | Inr drawn \<Rightarrow>
          (case handler_try_on p rt (w\<lparr>uuid := drawn\<rparr>) req of
             (Inl mainError, store', sent) \<Rightarrow>
               (respond p (res_json False (Some (js ''Server error'')) (Some drawn) 500), store', sent)
           | (Inr r, store', sent) \<Rightarrow> (Inr r, store', sent)))"

section \<open>A runtime and inputs for the examples\<close>

text \<open>
  The examples need a concrete runtime. \<open>node\<close> decodes the four request bodies the
  examples send and refuses any other text; it serialises \<open>undefined\<close> to \<open>undefined\<close>
  and a string of printable characters to its quoted form; it prints a non-negative
  integer in decimal and the one fractional amount of the examples as \<open>0.001\<close> (no
  example prints another number); its HTTP client follows up to 21 redirects.
\<close>

fun digits :: "nat \<Rightarrow> jsstring" where
  "digits n = (if n < 10 then [48 + n] else digits (n div 10) @ [48 + n mod 10])"

declare digits.simps [simp del]

definition json_quote :: "jsstring \<Rightarrow> jsstring" where
  "json_quote s = 34 # concat (map (\<lambda>c. if c = 34 \<or> c = 92 then [92, c] else [c]) s) @ [34]"

definition body_cents :: jsstring where
  \<open>body_cents = js ''{"transactionId":"TXN12345","amountCents":5000}''\<close>

definition body_script :: jsstring where
  \<open>body_script = js ''{"transactionId":"<script>","amountCents":5000}''\<close>

definition body_major :: jsstring where
  \<open>body_major = js ''{"transactionId":"<TXN12345>","amount":50}''\<close>

definition body_tiny :: jsstring where
  \<open>body_tiny = js ''{"transactionId":"TXN12345","amount":0.001}''\<close>

text \<open>The binary64 value nearest to 0.001, which is what \<open>JSON.parse\<close> reads from \<open>0.001\<close>.\<close>

definition tiny :: rat where
  "tiny = 1152921504606847 / 2 ^ 60"

definition node :: runtime where
  "node =
     \<lparr>JSON_parse = (\<lambda>v.
        if v = JStr body_cents
        then Inr (JObj [(js ''transactionId'', JStr (js ''TXN12345'')), (js ''amountCents'', JNum (Fin 5000))])
        else if v = JStr body_script
        then Inr (JObj [(js ''transactionId'', JStr (js ''<script>'')), (js ''amountCents'', JNum (Fin 5000))])
        else if v = JStr body_major
        then Inr (JObj [(js ''transactionId'', JStr (js ''<TXN12345>'')), (js ''amount'', JNum (Fin 50))])
        else if v = JStr body_tiny
        then Inr (JObj [(js ''transactionId'', JStr (js ''TXN12345'')), (js ''amount'', JNum (Fin tiny))])
        else Inl (Error (js ''Unexpected token''))),
      JSON_stringify = (\<lambda>v.
        case v of JUndefined \<Rightarrow> None | JStr s \<Rightarrow> Some (json_quote s) | _ \<Rightarrow> Some (js ''null'')),
      Number_toString = (\<lambda>n.
        case n of
          Fin q \<Rightarrow>
            if 0 \<le> q \<and> of_int \<lfloor>q\<rfloor> = q then digits (nat \<lfloor>q\<rfloor>)
            else if q = tiny then js ''0.001''
            else js ''NaN''
        | NaN \<Rightarrow> js ''NaN''
        | PosInf \<Rightarrow> js ''Infinity''
        | NegInf \<Rightarrow> js ''-Infinity''),
      TypeError_message = (\<lambda>v k. js ''Cannot read properties of null''),
      maxRedirects = 21\<rparr>"

definition post :: "jsstring \<Rightarrow> request" where
  "post b =
     \<lparr>req_method = js ''POST'',
      headers = Map.empty(js ''x-forwarded-for'' \<mapsto> js ''10.0.0.1''),
      body = JStr b\<rparr>"

definition created :: gateway where
  "created = (\<lambda>q. HttpResponse 201 (JObj [(js ''success'', JBool True)]))"

text \<open>
  Gateways that give every request the same answer: 204 with an empty body; 200 with a
  body that is not JSON; 302 to a location that answers 200; 400 with a \<open>detail\<close>; 202
  with a \<open>detail\<close> and a \<open>message\<close>.
\<close>

definition no_content :: gateway where
  "no_content = (\<lambda>q. HttpResponse 204 (JStr []))"

definition html_page :: gateway where
  "html_page = (\<lambda>q. HttpResponse 200 (JStr (js ''<html>'')))"

definition moved :: gateway where
  "moved = (\<lambda>q. Redirect 302 (JStr []) (HttpResponse 200 (JStr (js ''moved''))))"



definition exchange :: gateway where
  "exchange =
     (\<lambda>q. case q of
        AuthTokens k \<Rightarrow> HttpResponse 201 (JObj [(js ''token'', JStr (js ''tok_1''))])
      | _ \<Rightarrow> HttpResponse 201 (JObj [(js ''success'', JBool True)]))"

definition idle :: world where
  "idle =
     \<lparr>Date_now = 1700000000000,
      rateLimitStore = Map.empty,
      PAYMOB_SECRET_KEY = Some (js ''sk_test_1''),
      uuid = js ''2f1e4c9a'',
      gateway = created\<rparr>"

text \<open>
  Three platforms. On \<open>appwrite\<close> nothing faults. On \<open>picky\<close>, \<open>res.json\<close> throws when it
  is given status 400. On \<open>closed_stream\<close> it throws on every response. On \<open>no_crypto\<close> the
  first statement of the handler throws.
\<close>

definition appwrite :: platform where
  "appwrite = \<lparr>res_json_fault = (\<lambda>r. None), preamble = Inr (js ''2f1e4c9a'')\<rparr>"

definition picky :: platform where
  "picky =
     \<lparr>res_json_fault = (\<lambda>r. if status r = 400 then Some (Error (js ''Invalid status'')) else None),
      preamble = Inr (js ''2f1e4c9a'')\<rparr>"

definition closed_stream :: platform where
  "closed_stream =
     \<lparr>res_json_fault = (\<lambda>r. Some (Error (js ''Cannot set headers after they are sent''))),
      preamble = Inr (js ''2f1e4c9a'')\<rparr>"

definition no_crypto :: platform where
  "no_crypto =
     \<lparr>res_json_fault = (\<lambda>r. None),
      preamble = Inl (Error (js ''crypto.randomUUID is not a function''))\<rparr>"

section \<open>The rate limiter\<close>

lemma checkRateLimit_eq:
  "checkRateLimit t st c =
     (if 5 \<le> length (filter (\<lambda>x. t - 60000 < x) (case st c of None \<Rightarrow> [] | Some r \<Rightarrow> r))
      then (False, st)
      else (True, st(c \<mapsto> filter (\<lambda>x. t - 60000 < x) (case st c of None \<Rightarrow> [] | Some r \<Rightarrow> r) @ [t])))"
  by (auto simp: checkRateLimit_def Let_def MAX_REQUESTS_PER_IP_def RATE_LIMIT_WINDOW_def
      split: option.splits)

text \<open>
  Claim C2. With the cap 5 and the window 60000 ms, a call at time \<open>t\<close> keeps of the
  client's timestamps those later than \<open>t - 60000\<close> (so every timestamp older than
  \<open>t - 60000\<close> is dropped, and one exactly 60000 ms old is dropped too). If five or more
  remain the call returns false and leaves the store as it was: the attempt is not
  recorded. Otherwise it returns true and the client's record becomes the remaining
  timestamps followed by \<open>t\<close>. Consequently, for a client with no record, calls at times
  \<open>t1 \<le> ... \<le> t6\<close> within one window (\<open>t6 < t1 + 60000\<close>) return true five times and
  then false, and a later call at a time \<open>t7\<close> at least 60000 ms after \<open>t1\<close> returns true
  again.
\<close>

theorem rate_limiter_cap_and_window:
  "checkRateLimit t st c =
     (if 5 \<le> length (filter (\<lambda>x. t - 60000 < x) (case st c of None \<Rightarrow> [] | Some r \<Rightarrow> r))
      then (False, st)
      else (True, st(c \<mapsto> filter (\<lambda>x. t - 60000 < x) (case st c of None \<Rightarrow> [] | Some r \<Rightarrow> r) @ [t])))
   \<and> (st c = None \<and> t1 \<le> t2 \<and> t2 \<le> t3 \<and> t3 \<le> t4 \<and> t4 \<le> t5 \<and> t5 \<le> t6 \<and> t6 < t1 + 60000
        \<and> t6 \<le> t7 \<and> t1 + 60000 \<le> t7
      \<longrightarrow> fst (calls st c [t1, t2, t3, t4, t5, t6, t7]) = [True, True, True, True, True, False, True])"
proof (rule conjI)
  show "checkRateLimit t st c =
     (if 5 \<le> length (filter (\<lambda>x. t - 60000 < x) (case st c of None \<Rightarrow> [] | Some r \<Rightarrow> r))
      then (False, st)
      else (True, st(c \<mapsto> filter (\<lambda>x. t - 60000 < x) (case st c of None \<Rightarrow> [] | Some r \<Rightarrow> r) @ [t])))"
    by (rule checkRateLimit_eq)
next
  show "st c = None \<and> t1 \<le> t2 \<and> t2 \<le> t3 \<and> t3 \<le> t4 \<and> t4 \<le> t5 \<and> t5 \<le> t6 \<and> t6 < t1 + 60000
        \<and> t6 \<le> t7 \<and> t1 + 60000 \<le> t7
      \<longrightarrow> fst (calls st c [t1, t2, t3, t4, t5, t6, t7]) = [True, True, True, True, True, False, True]"
    by (simp add: checkRateLimit_eq Let_def)
qed

theorem rate_limiter_cap_and_window_witness:
  "checkRateLimit 5000 (Map.empty(js ''10.0.0.1'' \<mapsto> [0, 1000, 2000, 3000, 4000])) (js ''10.0.0.1'')
     = (False, Map.empty(js ''10.0.0.1'' \<mapsto> [0, 1000, 2000, 3000, 4000]))
   \<and> fst (calls Map.empty (js ''10.0.0.1'') [0, 1000, 2000, 3000, 4000, 5000, 60000])
       = [True, True, True, True, True, False, True]"
proof
  show "checkRateLimit 5000 (Map.empty(js ''10.0.0.1'' \<mapsto> [0, 1000, 2000, 3000, 4000])) (js ''10.0.0.1'')
     = (False, Map.empty(js ''10.0.0.1'' \<mapsto> [0, 1000, 2000, 3000, 4000]))"
    by (simp add: rate_limiter_cap_and_window [THEN conjunct1])
  show "fst (calls Map.empty (js ''10.0.0.1'') [0, 1000, 2000, 3000, 4000, 5000, 60000])
       = [True, True, True, True, True, False, True]"
    by (rule rate_limiter_cap_and_window
          [of _ Map.empty _ 0 1000 2000 3000 4000 5000 60000, THEN conjunct2, THEN mp])
       simp
qed

section \<open>Amount validation of the strict revision\<close>

lemma isInteger_Ints: "Number_isInteger (Fin a) \<longleftrightarrow> a \<in> \<int>"
  by (auto simp: Ints_def)

text \<open>
  Claim C6. \<open>validateAmount\<close> of the strict revision accepts a value exactly when it is a
  finite number that is strictly positive, at most 99999999 and an integer, and then
  returns that number unchanged; every other value (not a number, \<open>NaN\<close>, an infinity,
  zero or negative, above 99999999, or with a fractional part) fails with an error and is
  not rounded. The ceiling itself is accepted.
\<close>

theorem validateAmount_strict:
  "(validateAmount v = Inr n \<longleftrightarrow>
      (\<exists>a. v = JNum (Fin a) \<and> n = Fin a \<and> 0 < a \<and> a \<le> 99999999 \<and> a \<in> \<int>))
   \<and> ((\<forall>n. validateAmount v \<noteq> Inr n) \<longrightarrow> (\<exists>m. validateAmount v = Inl (Error m)))"
proof (cases v)
  case (JNum x)
  then show ?thesis
    by (cases x) (auto simp: validateAmount_def isInteger_Ints simp del: Number_isInteger.simps)
qed (simp_all add: validateAmount_def)

theorem validateAmount_strict_witness:
  "validateAmount (JNum (Fin 5000)) = Inr (Fin 5000)
   \<and> (\<exists>m. validateAmount (JNum (Fin 0)) = Inl (Error m))"
proof
  show "validateAmount (JNum (Fin 5000)) = Inr (Fin 5000)"
    by (rule validateAmount_strict [THEN conjunct1, THEN iffD2]) simp
  have "\<forall>n. validateAmount (JNum (Fin 0)) \<noteq> Inr n"
    by (simp add: validateAmount_strict [THEN conjunct1])
  then show "\<exists>m. validateAmount (JNum (Fin 0)) = Inl (Error m)"
    by (rule validateAmount_strict [THEN conjunct2, THEN mp])
qed

lemma validateAmount_examples:
  "validateAmount (JNum (Fin 99999999)) = Inr (Fin 99999999)"
  "validateAmount (JNum (Fin 100000000)) = Inl (Error (js ''Amount exceeds maximum limit''))"
  "validateAmount (JNum (Fin (3 / 2))) = Inl (Error (js ''Amount must be an integer (piasters)''))"
  "validateAmount (JNum (Fin (- 5))) = Inl (Error (js ''Amount must be positive''))"
  "validateAmount (JNum NaN) = Inl (Error (js ''Amount must be a finite number''))"
  "validateAmount (JStr (js ''5000'')) = Inl (Error (js ''Amount must be a finite number''))"
  by code_simp+

section \<open>Transaction identifiers of the strict revision\<close>

lemma js_javascript: "js ''javascript:'' = [106, 97, 118, 97, 115, 99, 114, 105, 112, 116, 58]"
  by (simp add: js_def)

lemma id_char_facts:
  "is_id_char c \<Longrightarrow> \<not> is_ws c"
  "is_id_char c \<Longrightarrow> \<not> is_stripped c"
  "is_id_char c \<Longrightarrow> c \<noteq> 58"
  "is_id_char c \<Longrightarrow> c \<noteq> 61"
  "is_id_char c \<Longrightarrow> c \<noteq> 60"
  "is_id_char c \<Longrightarrow> c \<noteq> 62"
  by (auto simp: is_id_char_def is_ws_def is_stripped_def)

lemma dropWhile_none: "\<forall>x\<in>set xs. \<not> P x \<Longrightarrow> dropWhile P xs = xs"
  by (cases xs) simp_all

lemma trim_id: "\<forall>c\<in>set s. \<not> is_ws c \<Longrightarrow> trim s = s"
  by (simp add: trim_def dropWhile_none)

lemma lower_colon: "lower c = 58 \<longleftrightarrow> c = 58"
  by (auto simp: lower_def)

lemma javascript_prefix_colon:
  assumes "map lower (take 11 xs) = js ''javascript:''"
  shows "58 \<in> set xs"
proof -
  have "length (map lower (take 11 xs)) = 11"
    using assms by (simp add: js_javascript)
  then have l: "10 < length xs"
    by simp
  have "map lower (take 11 xs) ! 10 = 58"
    using assms by (simp add: js_javascript)
  then have "lower (xs ! 10) = 58"
    using l by simp
  then have "xs ! 10 = 58"
    by (simp add: lower_colon)
  then show ?thesis
    using l by (metis nth_mem)
qed

lemma remove_javascript_id: "58 \<notin> set s \<Longrightarrow> remove_javascript s = s"
proof (induction s)
  case Nil
  then show ?case by simp
next
  case (Cons c cs)
  have "map lower (take 11 (c # cs)) \<noteq> js ''javascript:''"
    using Cons.prems javascript_prefix_colon by blast
  with Cons show ?case by simp
qed

lemma match_on_equals: "match_on s = Some r \<Longrightarrow> 61 \<in> set s"
proof (cases s rule: match_on.cases)
  case (1 c d rest)
  assume m: "match_on s = Some r"
  with 1 obtain after where "dropWhile is_word rest = 61 # after"
    by (auto split: if_splits list.splits)
  then have "61 \<in> set (dropWhile is_word rest)"
    by simp
  then have "61 \<in> set rest"
    by (rule set_dropWhileD)
  with 1 show ?thesis by simp
qed simp_all

lemma remove_on_id: "61 \<notin> set s \<Longrightarrow> remove_on s = s"
proof (induction s)
  case Nil
  then show ?case by simp
next
  case (Cons c cs)
  have "match_on (c # cs) = None"
  proof (cases "match_on (c # cs)")
    case (Some r)
    then have "61 \<in> set (c # cs)" by (rule match_on_equals)
    with Cons.prems show ?thesis by simp
  qed simp
  with Cons show ?case by simp
qed

lemma sanitizeInput_id:
  assumes "list_all is_id_char s" "s \<noteq> []" "length s \<le> n"
  shows "sanitizeInput (JStr s) n = Inr s"
proof -
  from assms(1) have all: "\<forall>c\<in>set s. is_id_char c"
    by (simp add: list_all_iff)
  have 1: "trim s = s"
    using all by (intro trim_id) (auto dest: id_char_facts)
  have 2: "filter (\<lambda>c. \<not> is_stripped c) s = s"
    using all by (auto simp: filter_id_conv dest: id_char_facts)
  have 3: "remove_javascript s = s"
    using all by (intro remove_javascript_id) (auto dest: id_char_facts)
  have 4: "remove_on s = s"
    using all by (intro remove_on_id) (auto dest: id_char_facts)
  show ?thesis
    using assms(2,3) by (simp add: sanitizeInput_def 1 2 3 4)
qed

lemma validateTransactionId_accepts:
  assumes "5 \<le> length s" "length s \<le> 50" "list_all is_id_char s"
  shows "sanitizeInput (JStr s) 50 = Inr s" and "validateTransactionId (JStr s) = Inr s"
proof -
  from assms(1) have "s \<noteq> []" by auto
  with assms show san: "sanitizeInput (JStr s) 50 = Inr s"
    by (simp add: sanitizeInput_id)
  from assms \<open>s \<noteq> []\<close> show "validateTransactionId (JStr s) = Inr s"
    by (simp add: validateTransactionId_def id_regex_test_def san)
qed

lemma validateTransactionId_only:
  assumes r: "validateTransactionId v = Inr t"
  shows "v = JStr t \<and> 5 \<le> length t \<and> length t \<le> 50 \<and> list_all is_id_char t"
proof (cases v)
  case (JStr s)
  with r have p: "5 \<le> length s" "length s \<le> 50" "list_all is_id_char s"
    by (auto simp: validateTransactionId_def id_regex_test_def split: if_splits)
  then have "validateTransactionId (JStr s) = Inr s"
    by (rule validateTransactionId_accepts)
  with r JStr have "s = t" by simp
  with p JStr show ?thesis by simp
qed (use r in \<open>simp_all add: validateTransactionId_def\<close>)

lemma validateTransactionId_error:
  "validateTransactionId v = Inl e \<Longrightarrow> \<exists>m. e = Error m"
  by (cases e)
     (auto simp: validateTransactionId_def sanitizeInput_def Let_def split: jsval.splits if_splits)

text \<open>
  Claim C7. In the strict revision \<open>validateTransactionId\<close> succeeds exactly on the
  strings of 5 to 50 characters that are all in \<open>[A-Za-z0-9_-]\<close>, and returns the string
  itself; every other value fails with an error. On an accepted string the sanitization
  changes nothing (\<open>sanitizeInput\<close> with the limit 50 returns it as it is), and validating
  the returned value again returns the same string.
\<close>

theorem validateTransactionId_policy:
  "(validateTransactionId v = Inr t \<longleftrightarrow>
      v = JStr t \<and> 5 \<le> length t \<and> length t \<le> 50 \<and> list_all is_id_char t)
   \<and> ((\<forall>t. validateTransactionId v \<noteq> Inr t) \<longrightarrow> (\<exists>m. validateTransactionId v = Inl (Error m)))
   \<and> (validateTransactionId v = Inr t \<longrightarrow>
        sanitizeInput v 50 = Inr t \<and> validateTransactionId (JStr t) = Inr t)"
proof -
  have fails: "\<exists>m. validateTransactionId v = Inl (Error m)"
    if "\<forall>t. validateTransactionId v \<noteq> Inr t"
  proof (cases "validateTransactionId v")
    case (Inl e)
    then show ?thesis using validateTransactionId_error by blast
  next
    case (Inr t)
    with that show ?thesis by simp
  qed
  show ?thesis
    using validateTransactionId_accepts validateTransactionId_only fails by auto
qed

theorem validateTransactionId_policy_witness:
  "validateTransactionId (JStr (js ''TXN12345'')) = Inr (js ''TXN12345'')
   \<and> sanitizeInput (JStr (js ''TXN12345'')) 50 = Inr (js ''TXN12345'')
   \<and> (\<exists>m. validateTransactionId (JStr (js ''TXN 12345'')) = Inl (Error m))"
proof -
  have a: "validateTransactionId (JStr (js ''TXN12345'')) = Inr (js ''TXN12345'')"
    by (rule validateTransactionId_policy [THEN conjunct1, THEN iffD2])
       (simp add: js_def is_id_char_def)
  have b: "sanitizeInput (JStr (js ''TXN12345'')) 50 = Inr (js ''TXN12345'')"
    using validateTransactionId_policy [of "JStr (js ''TXN12345'')" "js ''TXN12345''"] a by simp
  have "\<forall>t. validateTransactionId (JStr (js ''TXN 12345'')) \<noteq> Inr t"
    by (simp add: validateTransactionId_policy [THEN conjunct1] js_def is_id_char_def)
  then have c: "\<exists>m. validateTransactionId (JStr (js ''TXN 12345'')) = Inl (Error m)"
    by (rule validateTransactionId_policy [THEN conjunct2, THEN conjunct1, THEN mp])
  from a b c show ?thesis by simp
qed

section \<open>The capture call of the gateway client\<close>

lemma secureAxios_post_cases:
  "unfollowed outcome = None \<Longrightarrow>
     secureAxios_post rt outcome = Inl (Error (js ''Capture request failed''))"
  "unfollowed outcome = Some (Failed m) \<Longrightarrow>
     secureAxios_post rt outcome = Inl (Error (js ''Capture request failed''))"
  "unfollowed outcome = Some (Answered st d) \<Longrightarrow> \<not> validateStatus st \<Longrightarrow>
     secureAxios_post rt outcome = Inl (Error
       (if st = 429 then js ''Capture rate limit exceeded''
        else if st \<ge> 500 then js ''Capture service unavailable''
        else if st = 401 \<or> st = 403 then js ''Capture authentication failed''
        else js ''Capture request failed''))"
  "unfollowed outcome = Some (Answered st d) \<Longrightarrow> validateStatus st \<Longrightarrow> \<not> well_formed d \<Longrightarrow>
     secureAxios_post rt outcome = Inl (Error (js ''Invalid capture response format''))"
  "unfollowed outcome = Some (Answered st d) \<Longrightarrow> validateStatus st \<Longrightarrow> well_formed d \<Longrightarrow>
     secureAxios_post rt outcome = Inr (st, d)"
  by (simp_all add: secureAxios_post_def settle_def timed_def)

lemma catch_errMsg_Error [simp]: "catch_errMsg (Error m) = JStr m"
  by (simp add: catch_errMsg_def response_data_prop_def js_or_def)

lemma captureTransaction_strict_cases:
  assumes "k \<noteq> []" "\<not> invalid_capture_input tid a"
  shows "snd (captureTransaction rt gw (Some k) tid a) =
     (case unfollowed (gw (CaptureWithHeader (js ''Token '' @ k) (JStr (ToString rt tid)) a)) of
        None \<Rightarrow> Inl (Error (js ''Paymob Capture Request Failed: '' @ js ''Capture request failed''))
      | Some (Failed m) \<Rightarrow>
          Inl (Error (js ''Paymob Capture Request Failed: '' @ js ''Capture request failed''))
      | Some (Answered st d) \<Rightarrow>
          if \<not> validateStatus st then Inl (Error (js ''Paymob Capture Request Failed: '' @
            (if st = 429 then js ''Capture rate limit exceeded''
             else if st \<ge> 500 then js ''Capture service unavailable''
             else if st = 401 \<or> st = 403 then js ''Capture authentication failed''
             else js ''Capture request failed'')))
          else if \<not> well_formed d
          then Inl (Error (js ''Paymob Capture Request Failed: '' @ js ''Invalid capture response format''))
          else if st = 200 \<or> st = 201 then Inr True
          else Inl (Error (js ''Paymob Capture Request Failed: '' @ js ''Paymob Capture Failed: '' @
                 ToString rt (js_or (opt_prop d (js ''message''))
                   (js_or (opt_prop d (js ''detail'')) (JStr (js ''Capture failed'')))))))"
  using assms
  by (auto simp: captureTransaction_def secureAxios_post_cases split: option.splits exchange_end.splits)

lemma captureTransaction_strict_invalid:
  "\<not> str_truthy k \<or> invalid_capture_input tid a \<Longrightarrow>
     \<exists>m. captureTransaction rt gw k tid a = ([], Inl (Error m))"
  by (auto simp: captureTransaction_def str_truthy_def split: option.splits)

lemma captureTransaction_token_cases:
  assumes "\<not> invalid_capture_input tid a"
  shows "map_option snd (captureTransaction_token rt gw tok tid a) =
     (case follow (maxRedirects rt) (gw (CaptureWithToken tok tid a)) of
        None \<Rightarrow> None
      | Some (Failed m) \<Rightarrow> Some (Inl (Error (js ''Paymob Capture Request Failed: '' @ m)))
      | Some (Answered st d) \<Rightarrow>
          if validateStatus st then Some (Inr True)
          else Some (Inl (Error (js ''Paymob Capture Request Failed: '' @
                 ToString rt (js_or (opt_prop d (js ''detail''))
                   (js_or (opt_prop d (js ''message''))
                     (JStr (js ''Request failed with status code '' @ Number_toString rt (Fin (of_nat st))))))))))"
  using assms
  by (auto simp: captureTransaction_token_def axios_post_def settle_def validateStatus_def
      catch_errMsg_def response_data_prop_def js_or_def split: option.splits exchange_end.splits)

lemma captureTransaction_token_invalid:
  "invalid_capture_input tid a \<Longrightarrow>
     \<exists>m. captureTransaction_token rt gw tok tid a = Some ([], Inl (Error m))"
  by (auto simp: captureTransaction_token_def)

text \<open>
  Claim C4, as amended. In the strict revision, whose client follows no redirect and
  ends every exchange after 10 seconds, the capture call returns success exactly when the
  credential and the inputs pass its own checks and the gateway's answer has status 200 or
  201 and a body that is an object (or array); every other call throws an error that
  carries a message: every other status, a missing answer, a timeout, a body that is not a
  JSON object. In the token revision, whose client follows redirects and sets no timeout,
  the capture call returns success exactly when the inputs pass and the exchange, after
  the redirects followed, ends in an answer with any status from 200 to 299, whatever the
  body and whatever the status of the first answer; it does not return when the gateway
  never answers; and every call that returns without success throws an error that carries a
  message.
\<close>

theorem capture_success_statuses:
  "(snd (captureTransaction rt gw k tid a) = Inr True \<longleftrightarrow>
      (\<exists>key st d. k = Some key \<and> key \<noteq> [] \<and> \<not> invalid_capture_input tid a
         \<and> unfollowed (gw (CaptureWithHeader (js ''Token '' @ key) (JStr (ToString rt tid)) a))
             = Some (Answered st d)
         \<and> (st = 200 \<or> st = 201) \<and> well_formed d))
   \<and> (snd (captureTransaction rt gw k tid a) \<noteq> Inr True \<longrightarrow>
        (\<exists>m. snd (captureTransaction rt gw k tid a) = Inl (Error m)))
   \<and> (map_option snd (captureTransaction_token rt gw tok tid a) = Some (Inr True) \<longleftrightarrow>
        \<not> invalid_capture_input tid a
        \<and> (\<exists>st d. follow (maxRedirects rt) (gw (CaptureWithToken tok tid a)) = Some (Answered st d)
               \<and> 200 \<le> st \<and> st < 300))
   \<and> (captureTransaction_token rt gw tok tid a = None \<longleftrightarrow>
        \<not> invalid_capture_input tid a
        \<and> follow (maxRedirects rt) (gw (CaptureWithToken tok tid a)) = None)
   \<and> (map_option snd (captureTransaction_token rt gw tok tid a) = Some r \<and> r \<noteq> Inr True \<longrightarrow>
        (\<exists>m. r = Inl (Error m)))"
proof -
  have strict: "(snd (captureTransaction rt gw k tid a) = Inr True \<longleftrightarrow>
      (\<exists>key st d. k = Some key \<and> key \<noteq> [] \<and> \<not> invalid_capture_input tid a
         \<and> unfollowed (gw (CaptureWithHeader (js ''Token '' @ key) (JStr (ToString rt tid)) a))
             = Some (Answered st d)
         \<and> (st = 200 \<or> st = 201) \<and> well_formed d))
   \<and> (snd (captureTransaction rt gw k tid a) \<noteq> Inr True \<longrightarrow>
        (\<exists>m. snd (captureTransaction rt gw k tid a) = Inl (Error m)))"
  proof (cases "\<not> str_truthy k \<or> invalid_capture_input tid a")
    case True
    then obtain m where "captureTransaction rt gw k tid a = ([], Inl (Error m))"
      using captureTransaction_strict_invalid by blast
    with True show ?thesis
      by (auto simp: str_truthy_def)
  next
    case False
    then obtain key where k: "k = Some key" "key \<noteq> []" and v: "\<not> invalid_capture_input tid a"
      by (auto simp: str_truthy_def split: option.splits)
    show ?thesis
      unfolding k captureTransaction_strict_cases [OF k(2) v]
      using v k(2)
      by (auto simp: validateStatus_def split: option.splits exchange_end.splits)
  qed
  have token: "(map_option snd (captureTransaction_token rt gw tok tid a) = Some (Inr True) \<longleftrightarrow>
        \<not> invalid_capture_input tid a
        \<and> (\<exists>st d. follow (maxRedirects rt) (gw (CaptureWithToken tok tid a)) = Some (Answered st d)
               \<and> 200 \<le> st \<and> st < 300))
   \<and> (captureTransaction_token rt gw tok tid a = None \<longleftrightarrow>
        \<not> invalid_capture_input tid a
        \<and> follow (maxRedirects rt) (gw (CaptureWithToken tok tid a)) = None)
   \<and> (map_option snd (captureTransaction_token rt gw tok tid a) = Some r \<and> r \<noteq> Inr True \<longrightarrow>
        (\<exists>m. r = Inl (Error m)))"
  proof (cases "invalid_capture_input tid a")
    case True
    then obtain m where "captureTransaction_token rt gw tok tid a = Some ([], Inl (Error m))"
      using captureTransaction_token_invalid by blast
    with True show ?thesis by auto
  next
    case False
    have none: "captureTransaction_token rt gw tok tid a = None \<longleftrightarrow>
        map_option snd (captureTransaction_token rt gw tok tid a) = None"
      by simp
    show ?thesis
      unfolding none captureTransaction_token_cases [OF False]
      using False
      by (auto simp: validateStatus_def split: option.splits exchange_end.splits)
  qed
  from strict token show ?thesis by blast
qed

text \<open>
  The token revision returns success for the status 204, for the status 200 with a body
  that is not JSON, and for a 302 answer whose location answers 200: the claim as stated,
  success exactly for 200 or 201 and failure on every other status and on a malformed
  body, does not hold for it.
\<close>

theorem capture_success_statuses_counterexample:
  "captureTransaction_token node no_content (JStr (js ''tok'')) (JStr (js ''TXN12345'')) (Fin 5000)
     = Some ([CaptureWithToken (JStr (js ''tok'')) (JStr (js ''TXN12345'')) (Fin 5000)], Inr True)
   \<and> captureTransaction_token node html_page (JStr (js ''tok'')) (JStr (js ''TXN12345'')) (Fin 5000)
     = Some ([CaptureWithToken (JStr (js ''tok'')) (JStr (js ''TXN12345'')) (Fin 5000)], Inr True)
   \<and> captureTransaction_token node moved (JStr (js ''tok'')) (JStr (js ''TXN12345'')) (Fin 5000)
     = Some ([CaptureWithToken (JStr (js ''tok'')) (JStr (js ''TXN12345'')) (Fin 5000)], Inr True)"
  by (simp add: captureTransaction_token_def invalid_capture_input_def axios_post_def settle_def
      validateStatus_def node_def no_content_def html_page_def moved_def js_def)

theorem capture_success_statuses_witness:
  "snd (captureTransaction node created (Some (js ''sk_test_1'')) (JStr (js ''TXN12345'')) (Fin 5000)) = Inr True
   \<and> (\<exists>m. snd (captureTransaction node (\<lambda>q. Redirect 302 (JStr []) (HttpResponse 200 (JObj [])))
          (Some (js ''sk_test_1'')) (JStr (js ''TXN12345'')) (Fin 5000)) = Inl (Error m))
   \<and> map_option snd (captureTransaction_token node created (JStr (js ''tok'')) (JStr (js ''TXN12345'')) (Fin 5000))
       = Some (Inr True)
   \<and> captureTransaction_token node (\<lambda>q. Silent) (JStr (js ''tok'')) (JStr (js ''TXN12345'')) (Fin 5000) = None
   \<and> (\<exists>m. map_option snd (captureTransaction_token node (\<lambda>q. HttpResponse 500 JNull)
          (JStr (js ''tok'')) (JStr (js ''TXN12345'')) (Fin 5000)) = Some (Inl (Error m)))"
proof -
  have a: "snd (captureTransaction node created (Some (js ''sk_test_1'')) (JStr (js ''TXN12345'')) (Fin 5000)) = Inr True"
    by (rule capture_success_statuses [THEN conjunct1, THEN iffD2])
       (simp add: created_def invalid_capture_input_def well_formed_def js_def)
  have "snd (captureTransaction node (\<lambda>q. Redirect 302 (JStr []) (HttpResponse 200 (JObj [])))
          (Some (js ''sk_test_1'')) (JStr (js ''TXN12345'')) (Fin 5000)) \<noteq> Inr True"
    by (simp add: capture_success_statuses [THEN conjunct1])
  then have b: "\<exists>m. snd (captureTransaction node (\<lambda>q. Redirect 302 (JStr []) (HttpResponse 200 (JObj [])))
          (Some (js ''sk_test_1'')) (JStr (js ''TXN12345'')) (Fin 5000)) = Inl (Error m)"
    by (rule capture_success_statuses [THEN conjunct2, THEN conjunct1, THEN mp])
  have c: "map_option snd (captureTransaction_token node created (JStr (js ''tok'')) (JStr (js ''TXN12345'')) (Fin 5000))
       = Some (Inr True)"
    by (rule capture_success_statuses [THEN conjunct2, THEN conjunct2, THEN conjunct1, THEN iffD2])
       (simp add: created_def invalid_capture_input_def js_def)
  have d: "captureTransaction_token node (\<lambda>q. Silent) (JStr (js ''tok'')) (JStr (js ''TXN12345'')) (Fin 5000) = None"
    by (rule capture_success_statuses
          [THEN conjunct2, THEN conjunct2, THEN conjunct2, THEN conjunct1, THEN iffD2])
       (simp add: invalid_capture_input_def js_def)
  obtain r where r: "map_option snd (captureTransaction_token node (\<lambda>q. HttpResponse 500 JNull)
          (JStr (js ''tok'')) (JStr (js ''TXN12345'')) (Fin 5000)) = Some r"
    using capture_success_statuses
      [where rt = node and gw = "\<lambda>q. HttpResponse 500 JNull" and tok = "JStr (js ''tok'')"
         and tid = "JStr (js ''TXN12345'')" and a = "Fin 5000",
       THEN conjunct2, THEN conjunct2, THEN conjunct2, THEN conjunct1]
    by (cases "captureTransaction_token node (\<lambda>q. HttpResponse 500 JNull)
          (JStr (js ''tok'')) (JStr (js ''TXN12345'')) (Fin 5000)") simp_all
  have "r \<noteq> Inr True"
    using r capture_success_statuses
      [where rt = node and gw = "\<lambda>q. HttpResponse 500 JNull" and tok = "JStr (js ''tok'')"
         and tid = "JStr (js ''TXN12345'')" and a = "Fin 5000",
       THEN conjunct2, THEN conjunct2, THEN conjunct1]
    by auto
  with r have e: "\<exists>m. map_option snd (captureTransaction_token node (\<lambda>q. HttpResponse 500 JNull)
          (JStr (js ''tok'')) (JStr (js ''TXN12345'')) (Fin 5000)) = Some (Inl (Error m))"
    using capture_success_statuses
      [where rt = node and gw = "\<lambda>q. HttpResponse 500 JNull" and tok = "JStr (js ''tok'')"
         and tid = "JStr (js ''TXN12345'')" and a = "Fin 5000" and r = r,
       THEN conjunct2, THEN conjunct2, THEN conjunct2, THEN conjunct2]
    by auto
  from a b c d e show ?thesis by blast
qed




section \<open>What the handlers send\<close>

lemma validateTransactionId_rejects_brackets:
  assumes "60 \<in> set s \<or> 62 \<in> set s"
  shows "\<exists>m. validateTransactionId (JStr s) = Inl (Error m)"
proof (cases "validateTransactionId (JStr s)")
  case (Inl e)
  then show ?thesis using validateTransactionId_error by blast
next
  case (Inr t)
  then have "list_all is_id_char s"
    using validateTransactionId_only by blast
  then have "\<forall>c\<in>set s. is_id_char c" by (simp add: list_all_iff)
  with assms show ?thesis by (auto dest: id_char_facts)
qed

lemma validateTransactionId_no_brackets:
  "validateTransactionId v = Inr t \<Longrightarrow> 60 \<notin> set t \<and> 62 \<notin> set t"
  using validateTransactionId_only [of v t] by (auto simp: list_all_iff dest: id_char_facts)

lemma validateTransactionId_basic_result:
  "validateTransactionId_basic v = Inr r \<Longrightarrow>
     \<exists>s. v = JStr s \<and> 1 \<le> length s \<and> length s \<le> 100
        \<and> r = JStr (filter (\<lambda>c. c \<noteq> 60 \<and> c \<noteq> 62) (trim s))"
  by (cases v) (auto simp: validateTransactionId_basic_def sanitizeInput_basic_def Suc_le_eq split: if_splits)


lemma parse_body_Inr_iff:
  "parse_body rt b = Inr (t, a) \<longleftrightarrow>
     truthy b \<and> (\<exists>d v u. JSON_parse rt b = Inr d
        \<and> get_prop rt d (js ''transactionId'') = Inr v \<and> validateTransactionId v = Inr t
        \<and> get_prop rt d (js ''amountCents'') = Inr u \<and> validateAmount u = Inr a)"
  by (auto simp: parse_body_def split: sum.splits)

lemma captureTransaction_sent:
  "fst (captureTransaction rt gw k tid a) = []
   \<or> (\<exists>key. k = Some key \<and> key \<noteq> [] \<and> \<not> invalid_capture_input tid a
        \<and> fst (captureTransaction rt gw k tid a) =
            [CaptureWithHeader (js ''Token '' @ key) (JStr (ToString rt tid)) a])"
  by (auto simp: captureTransaction_def split: option.splits)

lemma captureTransaction_bearer_sent:
  "fst (captureTransaction_bearer rt gw k tid a) = []
   \<or> (\<exists>key. k = Some key \<and> key \<noteq> [] \<and> \<not> invalid_capture_input tid a
        \<and> fst (captureTransaction_bearer rt gw k tid a) =
            [CaptureWithHeader (js ''Token '' @ key) (JStr (ToString rt tid)) a])"
  by (auto simp: captureTransaction_bearer_def split: option.splits)

lemma handler_sent: "snd (snd (handler rt w req)) = snd (snd (handler_try rt w req))"
  by (auto simp: handler_def split: prod.splits sum.splits)

lemma handler_try_sent:
  "snd (snd (handler_try rt w req)) = []
   \<or> (\<exists>t a. parse_body rt (body req) = Inr (t, a)
        \<and> snd (snd (handler_try rt w req)) =
            fst (captureTransaction rt (gateway w) (PAYMOB_SECRET_KEY w) (JStr t) a))"
  by (auto simp: handler_try_def Let_def split: prod.splits sum.splits)

lemma handler_sent_ids:
  assumes "q \<in> set (snd (snd (handler rt w req)))"
  shows "\<exists>h t a. q = CaptureWithHeader h (JStr t) a \<and> 60 \<notin> set t \<and> 62 \<notin> set t"
proof -
  from assms have nonempty: "snd (snd (handler_try rt w req)) \<noteq> []"
    and q: "q \<in> set (snd (snd (handler_try rt w req)))"
    by (auto simp: handler_sent)
  with handler_try_sent [of rt w req] obtain t a
    where p: "parse_body rt (body req) = Inr (t, a)"
      and s: "snd (snd (handler_try rt w req)) =
                fst (captureTransaction rt (gateway w) (PAYMOB_SECRET_KEY w) (JStr t) a)"
    by auto
  from p have "60 \<notin> set t \<and> 62 \<notin> set t"
    by (auto simp: parse_body_Inr_iff dest: validateTransactionId_no_brackets)
  moreover from q s nonempty captureTransaction_sent [of rt "gateway w" "PAYMOB_SECRET_KEY w" "JStr t" a]
  have "\<exists>h. q = CaptureWithHeader h (JStr t) a"
    by auto
  ultimately show ?thesis by auto
qed

lemma parse_body_basic_Inr:
  "parse_body_basic rt b = Inr (r, a) \<Longrightarrow>
     \<exists>v u. validateTransactionId_basic v = Inr r \<and> validateAmount_basic u = Inr a"
  by (auto simp: parse_body_basic_def split: sum.splits if_splits)

lemma handler_bearer_sent:
  "snd (handler_bearer rt gw k req) = []
   \<or> (\<exists>r a. parse_body_basic rt (body req) = Inr (r, a)
        \<and> snd (handler_bearer rt gw k req) =
            fst (captureTransaction_bearer rt gw k r (Math_round (js_times a (Fin 100)))))"
  by (auto simp: handler_bearer_def Let_def split: prod.splits sum.splits)

lemma handler_bearer_sent_ids:
  assumes "q \<in> set (snd (handler_bearer rt gw k req))"
  shows "\<exists>h t a. q = CaptureWithHeader h (JStr t) a \<and> 60 \<notin> set t \<and> 62 \<notin> set t"
proof -
  from assms have nonempty: "snd (handler_bearer rt gw k req) \<noteq> []"
    by auto
  with handler_bearer_sent [of rt gw k req] obtain r a
    where p: "parse_body_basic rt (body req) = Inr (r, a)"
      and s: "snd (handler_bearer rt gw k req) =
                fst (captureTransaction_bearer rt gw k r (Math_round (js_times a (Fin 100))))"
    by auto
  from p obtain s' where r: "r = JStr (filter (\<lambda>c. c \<noteq> 60 \<and> c \<noteq> 62) (trim s'))"
    by (auto dest!: parse_body_basic_Inr validateTransactionId_basic_result)
  from assms s nonempty
    captureTransaction_bearer_sent [of rt gw k r "Math_round (js_times a (Fin 100))"]
  have "\<exists>h. q = CaptureWithHeader h (JStr (ToString rt r)) (Math_round (js_times a (Fin 100)))"
    by auto
  with r show ?thesis by auto
qed

text \<open>
  Claim C3, as amended. In the strict revision the length and character-class checks are
  made on the raw input, before the sanitization: a transactionId that contains \<open><\<close> or
  \<open>>\<close> is rejected, not stripped. In the revision with the basic validation the length
  check is made on the raw input and \<open><\<close> and \<open>>\<close> are stripped afterwards. In both, the
  transaction identifier of every capture request the handler sends contains neither
  \<open><\<close> nor \<open>>\<close>.
\<close>

theorem brackets_never_reach_gateway:
  "(60 \<in> set s \<or> 62 \<in> set s \<longrightarrow> (\<exists>m. validateTransactionId (JStr s) = Inl (Error m)))
   \<and> (validateTransactionId_basic v = Inr r \<longrightarrow>
        (\<exists>s. v = JStr s \<and> 1 \<le> length s \<and> length s \<le> 100
           \<and> r = JStr (filter (\<lambda>c. c \<noteq> 60 \<and> c \<noteq> 62) (trim s))))
   \<and> (\<forall>q\<in>set (snd (snd (handler rt w req))).
        \<exists>h t a. q = CaptureWithHeader h (JStr t) a \<and> 60 \<notin> set t \<and> 62 \<notin> set t)
   \<and> (\<forall>q\<in>set (snd (handler_bearer rt gw k req)).
        \<exists>h t a. q = CaptureWithHeader h (JStr t) a \<and> 60 \<notin> set t \<and> 62 \<notin> set t)"
  using validateTransactionId_rejects_brackets validateTransactionId_basic_result
    handler_sent_ids handler_bearer_sent_ids
  by blast

text \<open>
  The strict validator rejects \<open><TXN12345>\<close>, although its sanitized form \<open>TXN12345\<close>
  passes both checks: the characters are not stripped before the checks are made. The
  basic validator accepts \<open><>\<close>, two characters long, and returns the empty string: its
  length check is not made on the stripped value.
\<close>

theorem brackets_never_reach_gateway_counterexample:
  "validateTransactionId (JStr (js ''<TXN12345>''))
     = Inl (Error (js ''Transaction ID contains invalid characters''))
   \<and> sanitizeInput (JStr (js ''<TXN12345>'')) 50 = Inr (js ''TXN12345'')
   \<and> validateTransactionId (JStr (js ''TXN12345'')) = Inr (js ''TXN12345'')
   \<and> validateTransactionId_basic (JStr (js ''<>'')) = Inr (JStr [])"
  by (simp add: validateTransactionId_def sanitizeInput_def id_regex_test_def is_id_char_def
      trim_def is_ws_def is_stripped_def js_def lower_def is_word_def
      validateTransactionId_basic_def sanitizeInput_basic_def)

section \<open>The handlers on the sample requests\<close>

lemma bodies_distinct:
  "body_cents \<noteq> body_script" "body_cents \<noteq> body_major" "body_cents \<noteq> body_tiny"
  "body_script \<noteq> body_major" "body_script \<noteq> body_tiny" "body_major \<noteq> body_tiny"
  by (simp_all add: body_cents_def body_script_def body_major_def body_tiny_def js_def)

lemma utf8_length_ascii: "\<forall>c\<in>set s. c < 128 \<Longrightarrow> utf8_length s = length s"
  by (induction s rule: utf8_length.induct) (auto simp: unit_bytes_def)

lemma size_body_cents: "utf8_length (json_quote body_cents) = 55"
  by (subst utf8_length_ascii) (simp_all add: json_quote_def body_cents_def js_def)

lemma post_fields [simp]:
  "req_method (post b) = js ''POST''"
  "body (post b) = JStr b"
  "clientId_of (post b) = js ''10.0.0.1''"
  by (simp_all add: clientId_of_def post_def str_or_def) (simp add: js_def)

lemma node_parse_cents:
  "JSON_parse node (JStr body_cents) =
     Inr (JObj [(js ''transactionId'', JStr (js ''TXN12345'')), (js ''amountCents'', JNum (Fin 5000))])"
  by (simp add: node_def)

lemma node_stringify [simp]:
  "JSON_stringify node (JStr b) = Some (json_quote b)"
  "JSON_stringify node JUndefined = None"
  by (simp_all add: node_def)

lemma js_inject: "js a = js b \<longleftrightarrow> a = b"
  by (simp add: js_def inj_map_eq_map inj_on_def)

lemma handler_example:
  "handler node idle (post body_cents) =
     (Inr \<lparr>status = 200, success = True, error = None, requestId = Some (js ''2f1e4c9a'')\<rparr>,
      Map.empty(js ''10.0.0.1'' \<mapsto> [1700000000000]),
      [CaptureWithHeader (js ''Token sk_test_1'') (JStr (js ''TXN12345'')) (Fin 5000)])"
proof -
  have v: "validateTransactionId (JStr (js ''TXN12345'')) = Inr (js ''TXN12345'')"
    by (rule validateTransactionId_accepts) (simp_all add: js_def is_id_char_def)
  have a: "validateAmount (JNum (Fin 5000)) = Inr (Fin 5000)"
    by (simp add: validateAmount_def)
  have p: "parse_body node (JStr body_cents) = Inr (js ''TXN12345'', Fin 5000)"
    by (simp add: parse_body_def node_parse_cents v a js_inject) (simp add: body_cents_def js_def)
  have c: "captureTransaction node created (Some (js ''sk_test_1'')) (JStr (js ''TXN12345'')) (Fin 5000)
      = ([CaptureWithHeader (js ''Token sk_test_1'') (JStr (js ''TXN12345'')) (Fin 5000)], Inr True)"
    by (simp add: captureTransaction_def invalid_capture_input_def secureAxios_post_def settle_def
        timed_def validateStatus_def well_formed_def created_def) (simp add: js_def)
  have r: "checkRateLimit 1700000000000 Map.empty (js ''10.0.0.1'')
      = (True, Map.empty(js ''10.0.0.1'' \<mapsto> [1700000000000]))"
    by (simp add: checkRateLimit_eq)
  have k: "js ''sk_test_1'' \<noteq> []"
    by (simp add: js_def)
  show ?thesis
    by (simp add: handler_def handler_try_def idle_def r Buffer_byteLength_def
        MAX_REQUEST_SIZE_def str_truthy_def res_json_def size_body_cents p c k)
qed

section \<open>The strict handler\<close>

text \<open>
  Claim C1. The strict handler evaluates its gates in a fixed order and answers at the
  first one that fails, each time with \<open>success: false\<close>: a method other than POST gives
  405 and the rate limiter is not consulted (the store is unchanged); for a POST that
  the rate limiter denies, 429; for one it allows whose serialized body is larger than
  512000 bytes, 413; for one of at most 512000 bytes with no credential, 500; with a
  credential and a body that does not parse or fails validation, 400. No request is sent
  to the gateway in any of the five cases. The fifth gate fails exactly when the body is
  falsy, \<open>JSON.parse\<close> throws, a property read throws, or one of the two validators
  throws. (A body that \<open>JSON.stringify\<close> maps to \<open>undefined\<close> makes the size
  computation itself throw; that fault is the subject of claim C8.)
\<close>

theorem handler_gates:
  "(req_method req \<noteq> js ''POST'' \<longrightarrow>
      handler rt w req =
        (Inr \<lparr>status = 405, success = False, error = Some (js ''Method not allowed''), requestId = None\<rparr>,
         rateLimitStore w, []))
   \<and> (req_method req = js ''POST''
      \<and> \<not> fst (checkRateLimit (Date_now w) (rateLimitStore w) (clientId_of req)) \<longrightarrow>
      handler rt w req =
        (Inr \<lparr>status = 429, success = False, error = Some (js ''Too many capture requests''),
              requestId = None\<rparr>,
         rateLimitStore w, []))
   \<and> (req_method req = js ''POST''
      \<and> fst (checkRateLimit (Date_now w) (rateLimitStore w) (clientId_of req))
      \<and> Buffer_byteLength (JSON_stringify rt (body req)) = Inr n \<and> 512000 < n \<longrightarrow>
      handler rt w req =
        (Inr \<lparr>status = 413, success = False, error = Some (js ''Request too large''), requestId = None\<rparr>,
         snd (checkRateLimit (Date_now w) (rateLimitStore w) (clientId_of req)), []))
   \<and> (req_method req = js ''POST''
      \<and> fst (checkRateLimit (Date_now w) (rateLimitStore w) (clientId_of req))
      \<and> Buffer_byteLength (JSON_stringify rt (body req)) = Inr n \<and> n \<le> 512000
      \<and> \<not> str_truthy (PAYMOB_SECRET_KEY w) \<longrightarrow>
      handler rt w req =
        (Inr \<lparr>status = 500, success = False, error = Some (js ''Server configuration error.''),
              requestId = None\<rparr>,
         snd (checkRateLimit (Date_now w) (rateLimitStore w) (clientId_of req)), []))
   \<and> (req_method req = js ''POST''
      \<and> fst (checkRateLimit (Date_now w) (rateLimitStore w) (clientId_of req))
      \<and> Buffer_byteLength (JSON_stringify rt (body req)) = Inr n \<and> n \<le> 512000
      \<and> str_truthy (PAYMOB_SECRET_KEY w)
      \<and> parse_body rt (body req) = Inl e \<longrightarrow>
      handler rt w req =
        (Inr \<lparr>status = 400, success = False, error = Some (js ''Invalid request body''), requestId = None\<rparr>,
         snd (checkRateLimit (Date_now w) (rateLimitStore w) (clientId_of req)), []))
   \<and> ((\<exists>e. parse_body rt (body req) = Inl e) \<longleftrightarrow>
        \<not> (truthy (body req) \<and> (\<exists>d v u t a. JSON_parse rt (body req) = Inr d
            \<and> get_prop rt d (js ''transactionId'') = Inr v \<and> validateTransactionId v = Inr t
            \<and> get_prop rt d (js ''amountCents'') = Inr u \<and> validateAmount u = Inr a)))"
proof -
  have deny: "snd (checkRateLimit t st c) = st" if "\<not> fst (checkRateLimit t st c)" for t st c
    using that by (simp add: checkRateLimit_eq split: if_splits)
  have parse: "(\<exists>e. parse_body rt (body req) = Inl e) \<longleftrightarrow>
        \<not> (truthy (body req) \<and> (\<exists>d v u t a. JSON_parse rt (body req) = Inr d
            \<and> get_prop rt d (js ''transactionId'') = Inr v \<and> validateTransactionId v = Inr t
            \<and> get_prop rt d (js ''amountCents'') = Inr u \<and> validateAmount u = Inr a))"
  proof (cases "parse_body rt (body req)")
    case (Inl e)
    then have "\<And>t a. parse_body rt (body req) \<noteq> Inr (t, a)" by simp
    with Inl show ?thesis unfolding parse_body_Inr_iff by blast
  next
    case (Inr p)
    then obtain t a where "parse_body rt (body req) = Inr (t, a)" by (cases p) simp
    then show ?thesis using parse_body_Inr_iff by fastforce
  qed
  show ?thesis
    by (intro conjI impI parse)
       (simp_all add: handler_def handler_try_def split_beta res_json_def MAX_REQUEST_SIZE_def deny)
qed


lemma handler_try_fault_iff:
  "(\<exists>fault. fst (handler_try rt w req) = Inl fault) \<longleftrightarrow>
     req_method req = js ''POST''
     \<and> fst (checkRateLimit (Date_now w) (rateLimitStore w) (clientId_of req))
     \<and> JSON_stringify rt (body req) = None"
  by (auto simp: handler_try_def split_beta Buffer_byteLength_def split: option.splits sum.splits)


lemma handler_try_on_sent:
  "snd (handler_try_on p rt w req) = snd (handler_try rt w req)"
  by (simp add: handler_try_on_def handler_try_def split_beta split: sum.splits)

lemma handler_try_on_fst:
  "fst (handler_try_on p rt w req) =
     (case fst (handler_try rt w req) of
        Inl g \<Rightarrow> Inl g
      | Inr r \<Rightarrow>
          (case respond p r of
             Inr r' \<Rightarrow> Inr r'
           | Inl g \<Rightarrow>
               if success r
               then respond p \<lparr>status = 500, success = False, error = Some (js ''Capture process failed''),
                                requestId = Some (uuid w)\<rparr>
               else Inl g))"
proof -
  obtain allowed store' where
    rl: "checkRateLimit (Date_now w) (rateLimitStore w) (clientId_of req) = (allowed, store')"
    by fastforce
  show ?thesis
  proof (cases "req_method req = js ''POST'' \<and> allowed")
    case False
    then show ?thesis
      by (auto simp: handler_try_on_def handler_try_def res_json_def rl split: sum.splits)
  next
    case gate: True
    show ?thesis
    proof (cases "Buffer_byteLength (JSON_stringify rt (body req))")
      case (Inl fault)
      with gate show ?thesis
        by (simp add: handler_try_on_def handler_try_def rl)
    next
      case (Inr bodySize)
      show ?thesis
      proof (cases "bodySize > MAX_REQUEST_SIZE \<or> \<not> str_truthy (PAYMOB_SECRET_KEY w)")
        case True
        with gate Inr show ?thesis
          by (auto simp: handler_try_on_def handler_try_def res_json_def rl split: sum.splits)
      next
        case ok: False
        show ?thesis
        proof (cases "parse_body rt (body req)")
          case (Inl parseError)
          with gate Inr ok show ?thesis
            by (simp add: handler_try_on_def handler_try_def res_json_def rl split: sum.splits)
        next
          case parsed: (Inr ta)
          obtain transactionId amountCents where ta: "ta = (transactionId, amountCents)"
            by (cases ta)
          obtain sent outcome where
            c: "captureTransaction rt (gateway w) (PAYMOB_SECRET_KEY w) (JStr transactionId) amountCents
                  = (sent, outcome)"
            by fastforce
          show ?thesis
          proof (cases outcome)
            case (Inl flowError)
            with gate Inr ok parsed ta c show ?thesis
              by (simp add: handler_try_on_def handler_try_def res_json_def rl split: sum.splits)
          next
            case captured: (Inr b)
            with gate Inr ok parsed ta c show ?thesis
              by (simp add: handler_try_on_def handler_try_def res_json_def rl split: sum.splits)
          qed
        qed
      qed
    qed
  qed
qed

lemma handler_try_range:
  "fst (handler_try rt w req) = Inr r \<Longrightarrow>
     r \<in> {res_json False (Some (js ''Method not allowed'')) None 405,
          res_json False (Some (js ''Too many capture requests'')) None 429,
          res_json False (Some (js ''Request too large'')) None 413,
          res_json False (Some (js ''Server configuration error.'')) None 500,
          res_json False (Some (js ''Invalid request body'')) None 400,
          res_json False (Some (js ''Capture process failed'')) (Some (uuid w)) 500,
          res_json True None (Some (uuid w)) 200}"
  by (simp add: handler_try_def split_beta split: if_splits sum.splits)

lemma handler_try_not_server_error:
  "fst (handler_try rt w req) = Inr r \<Longrightarrow> error r \<noteq> Some (js ''Server error'')"
  by (drule handler_try_range) (auto simp: res_json_def js_inject)

lemma handler_try_on_not_server_error:
  assumes "fst (handler_try_on p rt w req) = Inr r"
  shows "error r \<noteq> Some (js ''Server error'')"
proof (cases "fst (handler_try rt w req)")
  case (Inl g)
  with assms show ?thesis by (simp add: handler_try_on_fst)
next
  case (Inr r0)
  then have "error r0 \<noteq> Some (js ''Server error'')"
    by (rule handler_try_not_server_error)
  with assms Inr show ?thesis
    by (auto simp: handler_try_on_fst respond_def js_inject split: sum.splits option.splits if_splits)
qed

lemma handler_on_fst:
  "preamble p = Inr u \<Longrightarrow>
     fst (handler_on p rt w req) =
       (case fst (handler_try_on p rt (w\<lparr>uuid := u\<rparr>) req) of
          Inl mainError \<Rightarrow>
            respond p \<lparr>status = 500, success = False, error = Some (js ''Server error''),
                        requestId = Some u\<rparr>
        | Inr r \<Rightarrow> Inr r)"
  by (cases "handler_try_on p rt (w\<lparr>uuid := u\<rparr>) req" rule: prod_cases3)
     (simp add: handler_on_def res_json_def split: sum.splits)

lemma handler_on_quiet:
  assumes "preamble p = Inr u" "\<forall>r. res_json_fault p r = None"
  shows "handler_on p rt w req = handler rt (w\<lparr>uuid := u\<rparr>) req"
proof -
  have r: "\<And>r. respond p r = Inr r"
    using assms(2) by (simp add: respond_def)
  have "fst (handler_try_on p rt (w\<lparr>uuid := u\<rparr>) req) = fst (handler_try rt (w\<lparr>uuid := u\<rparr>) req)"
    by (simp add: handler_try_on_fst r split: sum.splits)
  moreover have "snd (handler_try_on p rt (w\<lparr>uuid := u\<rparr>) req) = snd (handler_try rt (w\<lparr>uuid := u\<rparr>) req)"
    by (rule handler_try_on_sent)
  ultimately have "handler_try_on p rt (w\<lparr>uuid := u\<rparr>) req = handler_try rt (w\<lparr>uuid := u\<rparr>) req"
    by (rule prod_eqI)
  then show ?thesis
    using assms(1) by (simp add: handler_on_def handler_def r split: prod.splits sum.splits)
qed

text \<open>
  Claim C8, as amended. The outer \<open>catch\<close> of the strict handler takes every fault of the
  outer \<open>try\<close> block that no inner \<open>catch\<close> has taken and answers it with status 500 and
  \<open>{ success: false, error: "Server error" }\<close>, to which it adds the request identifier;
  the handler gives that response only then, and a response the block returns is the
  handler's. Such a fault arises exactly when an allowed POST has a body that
  \<open>JSON.stringify\<close> maps to \<open>undefined\<close>, so that \<open>Buffer.byteLength\<close> throws, or when
  \<open>res.json\<close> throws on the response the block sends (for the success response: when it
  throws again on the response of the \<open>catch\<close> of the third \<open>try\<close>). The handler does
  propagate a fault to its caller in two cases, and in no other: when one of the two
  statements before the \<open>try\<close> throws, and when \<open>res.json\<close> throws in the outer \<open>catch\<close>
  itself, on the \<open>Server error\<close> response. Where neither statement throws and \<open>res.json\<close>
  never throws, the handler returns a response on every request. (Reading \<open>req.method\<close>,
  \<open>req.headers\<close>, \<open>req.body\<close> and the environment is taken not to throw.)
\<close>

theorem handler_outer_catch:
  "(preamble p = Inr u
      \<and> res_json_fault p \<lparr>status = 500, success = False, error = Some (js ''Server error''),
                           requestId = Some u\<rparr> = None \<longrightarrow>
      (\<exists>r. fst (handler_on p rt w req) = Inr r)
      \<and> (fst (handler_on p rt w req) =
            Inr \<lparr>status = 500, success = False, error = Some (js ''Server error''), requestId = Some u\<rparr>
          \<longleftrightarrow> (\<exists>fault. fst (handler_try_on p rt (w\<lparr>uuid := u\<rparr>) req) = Inl fault)))
   \<and> (preamble p = Inr u \<and> fst (handler_try_on p rt (w\<lparr>uuid := u\<rparr>) req) = Inr r \<longrightarrow>
        fst (handler_on p rt w req) = Inr r)
   \<and> (fst (handler_on p rt w req) = Inl f \<longleftrightarrow>
        preamble p = Inl f
        \<or> (\<exists>u. preamble p = Inr u
              \<and> (\<exists>fault. fst (handler_try_on p rt (w\<lparr>uuid := u\<rparr>) req) = Inl fault)
              \<and> res_json_fault p \<lparr>status = 500, success = False, error = Some (js ''Server error''),
                                   requestId = Some u\<rparr> = Some f))
   \<and> ((\<exists>fault. fst (handler_try_on p rt w req) = Inl fault) \<longleftrightarrow>
        req_method req = js ''POST''
          \<and> fst (checkRateLimit (Date_now w) (rateLimitStore w) (clientId_of req))
          \<and> JSON_stringify rt (body req) = None
        \<or> (\<exists>r. fst (handler_try rt w req) = Inr r \<and> res_json_fault p r \<noteq> None
              \<and> (success r \<longrightarrow>
                   res_json_fault p \<lparr>status = 500, success = False,
                                      error = Some (js ''Capture process failed''),
                                      requestId = Some (uuid w)\<rparr> \<noteq> None)))
   \<and> (preamble p = Inr u \<and> (\<forall>r. res_json_fault p r = None) \<longrightarrow>
        handler_on p rt w req = handler rt (w\<lparr>uuid := u\<rparr>) req)"
proof (intro conjI impI)
  assume a: "preamble p = Inr u
      \<and> res_json_fault p \<lparr>status = 500, success = False, error = Some (js ''Server error''),
                           requestId = Some u\<rparr> = None"
  then have on: "fst (handler_on p rt w req) =
       (case fst (handler_try_on p rt (w\<lparr>uuid := u\<rparr>) req) of
          Inl mainError \<Rightarrow>
            Inr \<lparr>status = 500, success = False, error = Some (js ''Server error''),
                        requestId = Some u\<rparr>
        | Inr r \<Rightarrow> Inr r)"
    by (simp add: handler_on_fst respond_def split: sum.splits)
  show "\<exists>r. fst (handler_on p rt w req) = Inr r"
    by (simp add: on split: sum.splits)
  show "fst (handler_on p rt w req) =
            Inr \<lparr>status = 500, success = False, error = Some (js ''Server error''), requestId = Some u\<rparr>
          \<longleftrightarrow> (\<exists>fault. fst (handler_try_on p rt (w\<lparr>uuid := u\<rparr>) req) = Inl fault)"
  proof (cases "fst (handler_try_on p rt (w\<lparr>uuid := u\<rparr>) req)")
    case (Inl g)
    then show ?thesis by (simp add: on)
  next
    case (Inr r0)
    then have "error r0 \<noteq> Some (js ''Server error'')"
      by (rule handler_try_on_not_server_error)
    with Inr show ?thesis by (auto simp: on)
  qed
next
  assume "preamble p = Inr u \<and> fst (handler_try_on p rt (w\<lparr>uuid := u\<rparr>) req) = Inr r"
  then show "fst (handler_on p rt w req) = Inr r"
    by (simp add: handler_on_fst)
next
  show "fst (handler_on p rt w req) = Inl f \<longleftrightarrow>
        preamble p = Inl f
        \<or> (\<exists>u. preamble p = Inr u
              \<and> (\<exists>fault. fst (handler_try_on p rt (w\<lparr>uuid := u\<rparr>) req) = Inl fault)
              \<and> res_json_fault p \<lparr>status = 500, success = False, error = Some (js ''Server error''),
                                   requestId = Some u\<rparr> = Some f)"
  proof (cases "preamble p")
    case (Inl g)
    then show ?thesis by (simp add: handler_on_def)
  next
    case (Inr u0)
    then show ?thesis
      by (auto simp: handler_on_fst respond_def split: sum.splits option.splits)
  qed
next
  show "(\<exists>fault. fst (handler_try_on p rt w req) = Inl fault) \<longleftrightarrow>
        req_method req = js ''POST''
          \<and> fst (checkRateLimit (Date_now w) (rateLimitStore w) (clientId_of req))
          \<and> JSON_stringify rt (body req) = None
        \<or> (\<exists>r. fst (handler_try rt w req) = Inr r \<and> res_json_fault p r \<noteq> None
              \<and> (success r \<longrightarrow>
                   res_json_fault p \<lparr>status = 500, success = False,
                                      error = Some (js ''Capture process failed''),
                                      requestId = Some (uuid w)\<rparr> \<noteq> None))"
  proof (cases "fst (handler_try rt w req)")
    case (Inl g)
    moreover from Inl have "req_method req = js ''POST''
          \<and> fst (checkRateLimit (Date_now w) (rateLimitStore w) (clientId_of req))
          \<and> JSON_stringify rt (body req) = None"
      using handler_try_fault_iff [of rt w req] by blast
    ultimately show ?thesis
      by (simp add: handler_try_on_fst)
  next
    case (Inr r0)
    moreover from Inr have "\<not> (req_method req = js ''POST''
          \<and> fst (checkRateLimit (Date_now w) (rateLimitStore w) (clientId_of req))
          \<and> JSON_stringify rt (body req) = None)"
      using handler_try_fault_iff [of rt w req] by auto
    ultimately show ?thesis
      by (auto simp: handler_try_on_fst respond_def split: sum.splits option.splits if_splits)
  qed
next
  assume "preamble p = Inr u \<and> (\<forall>r. res_json_fault p r = None)"
  then show "handler_on p rt w req = handler rt (w\<lparr>uuid := u\<rparr>) req"
    by (simp add: handler_on_quiet)
qed

text \<open>
  On a platform whose \<open>res.json\<close> throws on every response, the handler's promise rejects
  with that fault, after the capture has been sent; so it does where
  \<open>crypto.randomUUID()\<close> throws.
\<close>

theorem handler_outer_catch_counterexample:
  "handler_on closed_stream node idle (post body_cents) =
     (Inl (Error (js ''Cannot set headers after they are sent'')),
      Map.empty(js ''10.0.0.1'' \<mapsto> [1700000000000]),
      [CaptureWithHeader (js ''Token sk_test_1'') (JStr (js ''TXN12345'')) (Fin 5000)])
   \<and> fst (handler_on no_crypto node idle (post body_cents))
       = Inl (Error (js ''crypto.randomUUID is not a function''))"
proof -
  have v: "validateTransactionId (JStr (js ''TXN12345'')) = Inr (js ''TXN12345'')"
    by (rule validateTransactionId_accepts) (simp_all add: js_def is_id_char_def)
  have a: "validateAmount (JNum (Fin 5000)) = Inr (Fin 5000)"
    by (simp add: validateAmount_def)
  have p: "parse_body node (JStr body_cents) = Inr (js ''TXN12345'', Fin 5000)"
    by (simp add: parse_body_def node_parse_cents v a js_inject) (simp add: body_cents_def js_def)
  have c: "captureTransaction node created (Some (js ''sk_test_1'')) (JStr (js ''TXN12345'')) (Fin 5000)
      = ([CaptureWithHeader (js ''Token sk_test_1'') (JStr (js ''TXN12345'')) (Fin 5000)], Inr True)"
    by (simp add: captureTransaction_def invalid_capture_input_def secureAxios_post_def settle_def
        timed_def validateStatus_def well_formed_def created_def) (simp add: js_def)
  have r: "checkRateLimit 1700000000000 Map.empty (js ''10.0.0.1'')
      = (True, Map.empty(js ''10.0.0.1'' \<mapsto> [1700000000000]))"
    by (simp add: checkRateLimit_eq)
  have k: "js ''sk_test_1'' \<noteq> []"
    by (simp add: js_def)
  have "handler_on closed_stream node idle (post body_cents) =
     (Inl (Error (js ''Cannot set headers after they are sent'')),
      Map.empty(js ''10.0.0.1'' \<mapsto> [1700000000000]),
      [CaptureWithHeader (js ''Token sk_test_1'') (JStr (js ''TXN12345'')) (Fin 5000)])"
    by (simp add: handler_on_def handler_try_on_def closed_stream_def respond_def idle_def r
        Buffer_byteLength_def MAX_REQUEST_SIZE_def str_truthy_def res_json_def size_body_cents p c k)
  moreover have "fst (handler_on no_crypto node idle (post body_cents))
       = Inl (Error (js ''crypto.randomUUID is not a function''))"
    by (simp add: handler_on_def no_crypto_def)
  ultimately show ?thesis by simp
qed

lemma captureTransaction_key_independent:
  assumes "k1 \<noteq> []" "k2 \<noteq> []"
    and "\<forall>t a. gw1 (CaptureWithHeader (js ''Token '' @ k1) t a) = gw2 (CaptureWithHeader (js ''Token '' @ k2) t a)"
  shows "snd (captureTransaction rt gw1 (Some k1) tid a) = snd (captureTransaction rt gw2 (Some k2) tid a)"
proof (cases "invalid_capture_input tid a")
  case True
  with assms(1,2) show ?thesis by (simp add: captureTransaction_def)
next
  case False
  with assms show ?thesis by (simp add: captureTransaction_strict_cases)
qed

text \<open>
  Claim C9. For two non-empty credentials, and gateways that answer the request sent
  with the one credential as they answer the request sent with the other, the strict
  handler gives the same response (status and body) and leaves the same rate-limit
  store, for every request, runtime and environment.
\<close>

theorem credential_noninterference:
  assumes "k1 \<noteq> []" "k2 \<noteq> []"
    and "\<forall>t a. gw1 (CaptureWithHeader (js ''Token '' @ k1) t a) = gw2 (CaptureWithHeader (js ''Token '' @ k2) t a)"
  shows "fst (handler rt (w\<lparr>PAYMOB_SECRET_KEY := Some k1, gateway := gw1\<rparr>) req)
           = fst (handler rt (w\<lparr>PAYMOB_SECRET_KEY := Some k2, gateway := gw2\<rparr>) req)
         \<and> fst (snd (handler rt (w\<lparr>PAYMOB_SECRET_KEY := Some k1, gateway := gw1\<rparr>) req))
           = fst (snd (handler rt (w\<lparr>PAYMOB_SECRET_KEY := Some k2, gateway := gw2\<rparr>) req))"
proof -
  have c: "snd (captureTransaction rt gw1 (Some k1) tid a) = snd (captureTransaction rt gw2 (Some k2) tid a)"
    for tid a
    using assms by (rule captureTransaction_key_independent)
  have t: "fst (handler_try rt (w\<lparr>PAYMOB_SECRET_KEY := Some k1, gateway := gw1\<rparr>) req)
           = fst (handler_try rt (w\<lparr>PAYMOB_SECRET_KEY := Some k2, gateway := gw2\<rparr>) req)
         \<and> fst (snd (handler_try rt (w\<lparr>PAYMOB_SECRET_KEY := Some k1, gateway := gw1\<rparr>) req))
           = fst (snd (handler_try rt (w\<lparr>PAYMOB_SECRET_KEY := Some k2, gateway := gw2\<rparr>) req))"
    using assms(1,2)
    by (auto simp: handler_try_def split_beta str_truthy_def c split: sum.splits)
  then show ?thesis
    by (auto simp: handler_def split_beta split: sum.splits)
qed

lemma tiny_rounds_to_zero: "Math_round (js_times (Fin tiny) (Fin 100)) = Fin 0"
  unfolding tiny_def by code_simp

lemma tiny_positive: "0 < tiny" "tiny \<le> 1000000"
  by (simp_all add: tiny_def)

lemma zero_is_invalid_input [simp]: "invalid_capture_input tid (Fin 0)"
  by (simp add: invalid_capture_input_def)

lemma parse_body_loose_accepts:
  assumes "truthy b" "JSON_parse rt b = Inr d"
    "get_prop rt d (js ''transactionId'') = Inr (JStr t)" "t \<noteq> []"
    "get_prop rt d (js ''amount'') = Inr (JNum (Fin x))" "0 < x"
  shows "parse_body_loose rt b = Inr (JStr t, Fin x)"
  using assms by (simp add: parse_body_loose_def)

lemma parse_body_basic_accepts:
  assumes "truthy b" "JSON_parse rt b = Inr d"
    "get_prop rt d (js ''transactionId'') = Inr (JStr t)" "1 \<le> length t" "length t \<le> 100"
    "get_prop rt d (js ''amount'') = Inr (JNum (Fin x))" "0 < x" "x \<le> 1000000"
  shows "parse_body_basic rt b = Inr (JStr (filter (\<lambda>c. c \<noteq> 60 \<and> c \<noteq> 62) (trim t)), Fin x)"
  using assms
  by (auto simp: parse_body_basic_def validateTransactionId_basic_def sanitizeInput_basic_def
      validateAmount_basic_def)

lemma getAuthToken_returns:
  "follow (maxRedirects rt) (gw (AuthTokens key)) \<noteq> None \<Longrightarrow>
     \<exists>x. getAuthToken_loose rt gw (Some key) = Some x"
  "follow (maxRedirects rt) (gw (AuthTokens key)) \<noteq> None \<Longrightarrow>
     \<exists>x. getAuthToken_token rt gw (Some key) = Some x"
  by (auto simp: getAuthToken_loose_def getAuthToken_token_def axios_post_def
      split: option.splits sum.splits)

section \<open>The major-unit handlers on an amount below half a minor unit\<close>

text \<open>
  Claim C10. The amount 0.001 (the binary64 value nearest to it) is strictly positive,
  and \<open>Math.round(amount * 100)\<close> is 0 for it. With 0 minor units the capture call
  returns its failure without sending a request. For a request whose body decodes to a
  non-empty string \<open>transactionId\<close> and this amount, the body validation of the
  token-exchange handlers accepts it, and both answer with status 500 and
  \<open>success: false\<close>, not with 400, as soon as the token exchange, which precedes the
  capture call, returns; it is the only request they have sent. The token exchange
  returns, and both handlers answer with status 500, whenever the exchange with the
  gateway ends. (Their HTTP client has no timeout: where the gateway never answers the
  token exchange, the exchange does not return and the handler gives no answer.) The
  static-bearer handler with the basic validation answers 500 as well and sends nothing.
\<close>

theorem zero_minor_units_is_500:
  "0 < tiny \<and> Math_round (js_times (Fin tiny) (Fin 100)) = Fin 0
   \<and> captureTransaction_loose rt gw tok tid (Fin 0) = Some ([], False)
   \<and> captureTransaction_token rt gw tok tid (Fin 0) =
        Some ([], Inl (Error (js ''Invalid input for capture: Missing transactionId or invalid amount.'')))
   \<and> (truthy (body req) \<and> JSON_parse rt (body req) = Inr d
        \<and> get_prop rt d (js ''transactionId'') = Inr (JStr t) \<and> t \<noteq> []
        \<and> get_prop rt d (js ''amount'') = Inr (JNum (Fin tiny)) \<longrightarrow>
      parse_body_loose rt (body req) = Inr (JStr t, Fin tiny)
      \<and> (str_truthy apiKey \<longrightarrow>
           handler_loose rt gw apiKey req =
             map_option
               (\<lambda>exchanged.
                  (\<lparr>status = 500, success = False,
                    error = Some (if truthy (snd exchanged)
                                  then js ''Paymob capture API call failed.''
                                  else js ''Paymob authentication failed.''),
                    requestId = None\<rparr>,
                   fst exchanged))
               (getAuthToken_loose rt gw apiKey))
      \<and> handler_token rt gw apiKey req =
           map_option
             (\<lambda>exchanged.
                (\<lparr>status = 500, success = False,
                  error = Some (case snd exchanged of
                                  Inl flowError \<Rightarrow> flow_message flowError
                                | Inr authToken \<Rightarrow>
                                    js ''Invalid input for capture: Missing transactionId or invalid amount.''),
                  requestId = None\<rparr>,
                 fst exchanged))
             (getAuthToken_token rt gw apiKey)
      \<and> (apiKey = Some key \<and> key \<noteq> [] \<and> follow (maxRedirects rt) (gw (AuthTokens key)) \<noteq> None \<longrightarrow>
           (\<exists>r sent. handler_loose rt gw apiKey req = Some (r, sent) \<and> status r = 500 \<and> \<not> success r)
           \<and> (\<exists>r sent. handler_token rt gw apiKey req = Some (r, sent) \<and> status r = 500 \<and> \<not> success r))
      \<and> (length t \<le> 100 \<and> str_truthy apiKey \<longrightarrow>
           handler_bearer rt gw apiKey req =
             (\<lparr>status = 500, success = False,
               error = Some (js ''Invalid input for capture: Missing transactionId or invalid amount.''),
               requestId = None\<rparr>,
              [])))"
proof (intro conjI impI)
  show "0 < tiny" by (rule tiny_positive)
  show "Math_round (js_times (Fin tiny) (Fin 100)) = Fin 0" by (rule tiny_rounds_to_zero)
  show "captureTransaction_loose rt gw tok tid (Fin 0) = Some ([], False)"
    by (simp add: captureTransaction_loose_def)
  show "captureTransaction_token rt gw tok tid (Fin 0) =
        Some ([], Inl (Error (js ''Invalid input for capture: Missing transactionId or invalid amount.'')))"
    by (simp add: captureTransaction_token_def)
next
  assume h: "truthy (body req) \<and> JSON_parse rt (body req) = Inr d
        \<and> get_prop rt d (js ''transactionId'') = Inr (JStr t) \<and> t \<noteq> []
        \<and> get_prop rt d (js ''amount'') = Inr (JNum (Fin tiny))"
  then show p: "parse_body_loose rt (body req) = Inr (JStr t, Fin tiny)"
    by (intro parse_body_loose_accepts [of _ _ d]) (simp_all add: tiny_positive)
  have nonempty: "js ''Paymob capture API call failed.'' \<noteq> []" "js ''Paymob authentication failed.'' \<noteq> []"
    "js ''Invalid input for capture: Missing transactionId or invalid amount.'' \<noteq> []"
    by (simp_all add: js_def)
  have loose: "handler_loose rt gw apiKey req =
             map_option
               (\<lambda>exchanged.
                  (\<lparr>status = 500, success = False,
                    error = Some (if truthy (snd exchanged)
                                  then js ''Paymob capture API call failed.''
                                  else js ''Paymob authentication failed.''),
                    requestId = None\<rparr>,
                   fst exchanged))
               (getAuthToken_loose rt gw apiKey)"
    if "str_truthy apiKey"
    using that
    by (cases "getAuthToken_loose rt gw apiKey")
       (auto simp: handler_loose_def p tiny_rounds_to_zero captureTransaction_loose_def
        res_json_def flow_message_def nonempty)
  then show "handler_loose rt gw apiKey req =
             map_option
               (\<lambda>exchanged.
                  (\<lparr>status = 500, success = False,
                    error = Some (if truthy (snd exchanged)
                                  then js ''Paymob capture API call failed.''
                                  else js ''Paymob authentication failed.''),
                    requestId = None\<rparr>,
                   fst exchanged))
               (getAuthToken_loose rt gw apiKey)"
    if "str_truthy apiKey"
    using that .
  show token: "handler_token rt gw apiKey req =
           map_option
             (\<lambda>exchanged.
                (\<lparr>status = 500, success = False,
                  error = Some (case snd exchanged of
                                  Inl flowError \<Rightarrow> flow_message flowError
                                | Inr authToken \<Rightarrow>
                                    js ''Invalid input for capture: Missing transactionId or invalid amount.''),
                  requestId = None\<rparr>,
                 fst exchanged))
             (getAuthToken_token rt gw apiKey)"
    by (cases "getAuthToken_token rt gw apiKey")
       (auto simp: handler_token_def p tiny_rounds_to_zero captureTransaction_token_def
        res_json_def flow_message_def nonempty split: sum.splits)
  show "\<exists>r sent. handler_loose rt gw apiKey req = Some (r, sent) \<and> status r = 500 \<and> \<not> success r"
    if e: "apiKey = Some key \<and> key \<noteq> [] \<and> follow (maxRedirects rt) (gw (AuthTokens key)) \<noteq> None"
  proof -
    from e obtain x where "getAuthToken_loose rt gw apiKey = Some x"
      using getAuthToken_returns(1) [of rt gw key] by blast
    moreover from e have "str_truthy apiKey"
      by (simp add: str_truthy_def)
    ultimately show ?thesis
      by (simp add: loose)
  qed
  show "\<exists>r sent. handler_token rt gw apiKey req = Some (r, sent) \<and> status r = 500 \<and> \<not> success r"
    if e: "apiKey = Some key \<and> key \<noteq> [] \<and> follow (maxRedirects rt) (gw (AuthTokens key)) \<noteq> None"
  proof -
    from e obtain x where "getAuthToken_token rt gw apiKey = Some x"
      using getAuthToken_returns(2) [of rt gw key] by blast
    then show ?thesis
      by (simp add: token)
  qed
  show "handler_bearer rt gw apiKey req =
             (\<lparr>status = 500, success = False,
               error = Some (js ''Invalid input for capture: Missing transactionId or invalid amount.''),
               requestId = None\<rparr>,
              [])"
    if b: "length t \<le> 100 \<and> str_truthy apiKey"
  proof -
    from h have "1 \<le> length t" by (cases t) simp_all
    with h b have "parse_body_basic rt (body req) =
        Inr (JStr (filter (\<lambda>c. c \<noteq> 60 \<and> c \<noteq> 62) (trim t)), Fin tiny)"
      by (intro parse_body_basic_accepts [of _ _ d]) (simp_all add: tiny_positive)
    with b show ?thesis
      by (auto simp: handler_bearer_def tiny_rounds_to_zero captureTransaction_bearer_def
          str_truthy_def res_json_def flow_message_def nonempty split: option.splits)
  qed
qed

section \<open>The properties on the sample requests\<close>

lemma json_quote_plain: "\<forall>c\<in>set s. c \<noteq> 34 \<and> c \<noteq> 92 \<Longrightarrow> json_quote s = 34 # s @ [34]"
proof -
  assume "\<forall>c\<in>set s. c \<noteq> 34 \<and> c \<noteq> 92"
  then have "concat (map (\<lambda>c. if c = 34 \<or> c = 92 then [92, c] else [c]) s) = s"
    by (induction s) auto
  then show ?thesis by (simp add: json_quote_def)
qed

lemma size_large_body: "utf8_length (json_quote (replicate 512000 97)) = 512002"
  by (simp add: json_quote_plain utf8_length_ascii)

lemma size_body_script: "utf8_length (json_quote body_script) = 55"
  by (subst utf8_length_ascii) (simp_all add: json_quote_def body_script_def js_def)

lemma idle_allows: "checkRateLimit (Date_now idle) (rateLimitStore idle) (js ''10.0.0.1'')
    = (True, Map.empty(js ''10.0.0.1'' \<mapsto> [1700000000000]))"
  by (simp add: idle_def checkRateLimit_eq)

lemma parse_body_script:
  "parse_body node (JStr body_script) = Inl (Error (js ''Transaction ID contains invalid characters''))"
proof -
  have "JSON_parse node (JStr body_script) =
     Inr (JObj [(js ''transactionId'', JStr (js ''<script>'')), (js ''amountCents'', JNum (Fin 5000))])"
    using bodies_distinct by (simp add: node_def)
  moreover have "validateTransactionId (JStr (js ''<script>''))
      = Inl (Error (js ''Transaction ID contains invalid characters''))"
    by (simp add: validateTransactionId_def id_regex_test_def is_id_char_def js_def)
  moreover have "truthy (JStr body_script)"
    by (simp add: body_script_def js_def)
  ultimately show ?thesis
    by (simp add: parse_body_def js_inject)
qed

theorem handler_gates_witness:
  "fst (handler node idle ((post body_cents)\<lparr>req_method := js ''GET''\<rparr>))
     = Inr \<lparr>status = 405, success = False, error = Some (js ''Method not allowed''), requestId = None\<rparr>
   \<and> fst (handler node
          (idle\<lparr>rateLimitStore := Map.empty(js ''10.0.0.1'' \<mapsto>
             [1699999995000, 1699999996000, 1699999997000, 1699999998000, 1699999999000])\<rparr>)
          (post body_cents))
     = Inr \<lparr>status = 429, success = False, error = Some (js ''Too many capture requests''),
           requestId = None\<rparr>
   \<and> fst (handler node idle (post (replicate 512000 97)))
     = Inr \<lparr>status = 413, success = False, error = Some (js ''Request too large''), requestId = None\<rparr>
   \<and> fst (handler node (idle\<lparr>PAYMOB_SECRET_KEY := None\<rparr>) (post body_cents))
     = Inr \<lparr>status = 500, success = False, error = Some (js ''Server configuration error.''),
           requestId = None\<rparr>
   \<and> fst (handler node idle (post body_script))
     = Inr \<lparr>status = 400, success = False, error = Some (js ''Invalid request body''), requestId = None\<rparr>"
proof (intro conjI)
  have "req_method ((post body_cents)\<lparr>req_method := js ''GET''\<rparr>) \<noteq> js ''POST''"
    by (simp add: js_inject)
  then show "fst (handler node idle ((post body_cents)\<lparr>req_method := js ''GET''\<rparr>))
     = Inr \<lparr>status = 405, success = False, error = Some (js ''Method not allowed''), requestId = None\<rparr>"
    using handler_gates [where req = "(post body_cents)\<lparr>req_method := js ''GET''\<rparr>" and rt = node and w = idle]
    by simp
next
  let ?w = "idle\<lparr>rateLimitStore := Map.empty(js ''10.0.0.1'' \<mapsto>
             [1699999995000, 1699999996000, 1699999997000, 1699999998000, 1699999999000])\<rparr>"
  have "\<not> fst (checkRateLimit (Date_now ?w) (rateLimitStore ?w) (clientId_of (post body_cents)))"
    by (simp add: idle_def checkRateLimit_eq)
  then show "fst (handler node ?w (post body_cents))
     = Inr \<lparr>status = 429, success = False, error = Some (js ''Too many capture requests''),
           requestId = None\<rparr>"
    using handler_gates [where req = "post body_cents" and rt = node and w = ?w]
    by simp
next
  have "fst (checkRateLimit (Date_now idle) (rateLimitStore idle) (clientId_of (post (replicate 512000 97))))"
    and "Buffer_byteLength (JSON_stringify node (body (post (replicate 512000 97)))) = Inr 512002"
    by (simp_all add: idle_allows Buffer_byteLength_def size_large_body)
  then show "fst (handler node idle (post (replicate 512000 97)))
     = Inr \<lparr>status = 413, success = False, error = Some (js ''Request too large''), requestId = None\<rparr>"
    using handler_gates [where req = "post (replicate 512000 97)" and rt = node and w = idle and n = 512002]
    by simp
next
  let ?w = "idle\<lparr>PAYMOB_SECRET_KEY := None\<rparr>"
  have "fst (checkRateLimit (Date_now ?w) (rateLimitStore ?w) (clientId_of (post body_cents)))"
    and "Buffer_byteLength (JSON_stringify node (body (post body_cents))) = Inr 55"
    and "\<not> str_truthy (PAYMOB_SECRET_KEY ?w)"
    by (simp_all add: idle_def checkRateLimit_eq Buffer_byteLength_def size_body_cents str_truthy_def)
  then show "fst (handler node ?w (post body_cents))
     = Inr \<lparr>status = 500, success = False, error = Some (js ''Server configuration error.''),
           requestId = None\<rparr>"
    using handler_gates [where req = "post body_cents" and rt = node and w = ?w and n = 55]
    by simp
next
  have "fst (checkRateLimit (Date_now idle) (rateLimitStore idle) (clientId_of (post body_script)))"
    and "Buffer_byteLength (JSON_stringify node (body (post body_script))) = Inr 55"
    and "str_truthy (PAYMOB_SECRET_KEY idle)"
    and "parse_body node (body (post body_script))
           = Inl (Error (js ''Transaction ID contains invalid characters''))"
    by (simp_all add: idle_allows Buffer_byteLength_def size_body_script parse_body_script)
       (simp add: idle_def str_truthy_def js_def)
  then show "fst (handler node idle (post body_script))
     = Inr \<lparr>status = 400, success = False, error = Some (js ''Invalid request body''), requestId = None\<rparr>"
    using handler_gates [where req = "post body_script" and rt = node and w = idle and n = 55
        and e = "Error (js ''Transaction ID contains invalid characters'')"]
    by simp
qed


lemma post_body_update [simp]:
  "clientId_of ((post b)\<lparr>body := x\<rparr>) = js ''10.0.0.1''"
  "req_method ((post b)\<lparr>body := x\<rparr>) = js ''POST''"
  by (simp_all add: clientId_of_def post_def str_or_def) (simp add: js_def)

theorem handler_outer_catch_witness:
  "fst (handler_on appwrite node idle ((post body_cents)\<lparr>body := JUndefined\<rparr>))
     = Inr \<lparr>status = 500, success = False, error = Some (js ''Server error''),
           requestId = Some (js ''2f1e4c9a'')\<rparr>
   \<and> fst (handler_on picky node idle (post body_script))
     = Inr \<lparr>status = 500, success = False, error = Some (js ''Server error''),
           requestId = Some (js ''2f1e4c9a'')\<rparr>
   \<and> handler_on appwrite node idle (post body_cents) =
       (Inr \<lparr>status = 200, success = True, error = None, requestId = Some (js ''2f1e4c9a'')\<rparr>,
        Map.empty(js ''10.0.0.1'' \<mapsto> [1700000000000]),
        [CaptureWithHeader (js ''Token sk_test_1'') (JStr (js ''TXN12345'')) (Fin 5000)])
   \<and> (\<exists>f. fst (handler_on closed_stream node idle (post body_script)) = Inl f)"
proof (intro conjI)
  have idle_uuid: "idle\<lparr>uuid := js ''2f1e4c9a''\<rparr> = idle"
    by (simp add: idle_def)
  let ?se = "\<lparr>status = 500, success = False, error = Some (js ''Server error''),
           requestId = Some (js ''2f1e4c9a'')\<rparr>"
  let ?bad = "\<lparr>status = 400, success = False, error = Some (js ''Invalid request body''),
           requestId = None\<rparr>"
  have bad: "fst (handler_try node idle (post body_script)) = Inr ?bad"
    by (simp add: handler_try_def idle_allows Buffer_byteLength_def size_body_script
        MAX_REQUEST_SIZE_def parse_body_script res_json_def)
       (simp add: idle_def str_truthy_def js_def)
  show "fst (handler_on appwrite node idle ((post body_cents)\<lparr>body := JUndefined\<rparr>)) = Inr ?se"
  proof -
    let ?req = "(post body_cents)\<lparr>body := JUndefined\<rparr>"
    have q: "preamble appwrite = Inr (js ''2f1e4c9a'') \<and> res_json_fault appwrite ?se = None"
      by (simp add: appwrite_def)
    have "req_method ?req = js ''POST''
        \<and> fst (checkRateLimit (Date_now idle) (rateLimitStore idle) (clientId_of ?req))
        \<and> JSON_stringify node (body ?req) = None"
      by (simp add: idle_allows)
    then have "\<exists>fault. fst (handler_try_on appwrite node idle ?req) = Inl fault"
      using handler_outer_catch [where p = appwrite and rt = node and w = idle and req = ?req] by blast
    then show ?thesis
      using handler_outer_catch [where p = appwrite and rt = node and w = idle and req = ?req
          and u = "js ''2f1e4c9a''"] q idle_uuid
      by simp
  qed
  show "fst (handler_on picky node idle (post body_script)) = Inr ?se"
  proof -
    have q: "preamble picky = Inr (js ''2f1e4c9a'') \<and> res_json_fault picky ?se = None"
      by (simp add: picky_def)
    have "res_json_fault picky ?bad \<noteq> None \<and> \<not> success ?bad"
      by (simp add: picky_def)
    with bad have "\<exists>fault. fst (handler_try_on picky node idle (post body_script)) = Inl fault"
      using handler_outer_catch [where p = picky and rt = node and w = idle and req = "post body_script"]
      by blast
    then show ?thesis
      using handler_outer_catch [where p = picky and rt = node and w = idle and req = "post body_script"
          and u = "js ''2f1e4c9a''"] q idle_uuid
      by simp
  qed
  show "handler_on appwrite node idle (post body_cents) =
       (Inr \<lparr>status = 200, success = True, error = None, requestId = Some (js ''2f1e4c9a'')\<rparr>,
        Map.empty(js ''10.0.0.1'' \<mapsto> [1700000000000]),
        [CaptureWithHeader (js ''Token sk_test_1'') (JStr (js ''TXN12345'')) (Fin 5000)])"
  proof -
    have "preamble appwrite = Inr (js ''2f1e4c9a'') \<and> (\<forall>r. res_json_fault appwrite r = None)"
      by (simp add: appwrite_def)
    then have "handler_on appwrite node idle (post body_cents)
        = handler node (idle\<lparr>uuid := js ''2f1e4c9a''\<rparr>) (post body_cents)"
      using handler_outer_catch [where p = appwrite and rt = node and w = idle
          and req = "post body_cents" and u = "js ''2f1e4c9a''"]
      by blast
    then show ?thesis
      by (simp add: idle_uuid handler_example)
  qed
  show "\<exists>f. fst (handler_on closed_stream node idle (post body_script)) = Inl f"
  proof -
    have "res_json_fault closed_stream ?bad \<noteq> None \<and> \<not> success ?bad"
      by (simp add: closed_stream_def)
    with bad have "\<exists>fault. fst (handler_try_on closed_stream node (idle\<lparr>uuid := js ''2f1e4c9a''\<rparr>)
                      (post body_script)) = Inl fault"
      using handler_outer_catch [where p = closed_stream and rt = node
          and w = "idle\<lparr>uuid := js ''2f1e4c9a''\<rparr>" and req = "post body_script"] idle_uuid
      by auto
    moreover have "preamble closed_stream = Inr (js ''2f1e4c9a'')"
      and "res_json_fault closed_stream ?se = Some (Error (js ''Cannot set headers after they are sent''))"
      by (simp_all add: closed_stream_def)
    ultimately have "fst (handler_on closed_stream node idle (post body_script))
        = Inl (Error (js ''Cannot set headers after they are sent''))"
      using handler_outer_catch [where p = closed_stream and rt = node and w = idle
          and req = "post body_script" and f = "Error (js ''Cannot set headers after they are sent'')"]
      by blast
    then show ?thesis by blast
  qed
qed

theorem credential_noninterference_witness:
  "fst (handler node (idle\<lparr>PAYMOB_SECRET_KEY := Some (js ''sk_test_1''), gateway := created\<rparr>) (post body_cents))
     = fst (handler node (idle\<lparr>PAYMOB_SECRET_KEY := Some (js ''sk_live_2''), gateway := created\<rparr>) (post body_cents))
   \<and> fst (snd (handler node (idle\<lparr>PAYMOB_SECRET_KEY := Some (js ''sk_test_1''), gateway := created\<rparr>) (post body_cents)))
     = fst (snd (handler node (idle\<lparr>PAYMOB_SECRET_KEY := Some (js ''sk_live_2''), gateway := created\<rparr>) (post body_cents)))"
proof -
  have "js ''sk_test_1'' \<noteq> []" "js ''sk_live_2'' \<noteq> []"
    by (simp_all add: js_def)
  moreover have "\<forall>t a. created (CaptureWithHeader (js ''Token '' @ js ''sk_test_1'') t a)
      = created (CaptureWithHeader (js ''Token '' @ js ''sk_live_2'') t a)"
    by (simp add: created_def)
  ultimately show ?thesis
    by (rule credential_noninterference)
qed


lemma fifty_major_units: "Math_round (js_times (Fin 50) (Fin 100)) = Fin 5000"
  by code_simp

text \<open>
  The largest binary64 value below 0.005 still gives 0 minor units; the binary64 value
  nearest to 0.005 gives 1.
\<close>

lemma half_unit_boundary:
  "Math_round (js_times (Fin (2882303761517117 / 2 ^ 59)) (Fin 100)) = Fin 0"
  "Math_round (js_times (Fin (5764607523034235 / 2 ^ 60)) (Fin 100)) = Fin 1"
  by code_simp+

lemma node_parse_major:
  "JSON_parse node (JStr body_major) =
     Inr (JObj [(js ''transactionId'', JStr (js ''<TXN12345>'')), (js ''amount'', JNum (Fin 50))])"
  using bodies_distinct by (simp add: node_def)

lemma node_parse_tiny:
  "JSON_parse node (JStr body_tiny) =
     Inr (JObj [(js ''transactionId'', JStr (js ''TXN12345'')), (js ''amount'', JNum (Fin tiny))])"
  using bodies_distinct by (simp add: node_def)

lemma basic_strips_example:
  "validateTransactionId_basic (JStr (js ''<TXN12345>'')) = Inr (JStr (js ''TXN12345''))"
  by (simp add: validateTransactionId_basic_def sanitizeInput_basic_def trim_def is_ws_def js_def)

lemma handler_bearer_example:
  "handler_bearer node created (Some (js ''sk_test_1'')) (post body_major) =
     (\<lparr>status = 200, success = True, error = None, requestId = None\<rparr>,
      [CaptureWithHeader (js ''Token sk_test_1'') (JStr (js ''TXN12345'')) (Fin 5000)])"
proof -
  have t: "truthy (JStr body_major)"
    by (simp add: body_major_def js_def)
  have a: "validateAmount_basic (JNum (Fin 50)) = Inr (Fin 50)"
    by (simp add: validateAmount_basic_def)
  have p: "parse_body_basic node (JStr body_major) = Inr (JStr (js ''TXN12345''), Fin 50)"
    using t by (simp add: parse_body_basic_def node_parse_major basic_strips_example a js_inject)
  have c: "captureTransaction_bearer node created (Some (js ''sk_test_1'')) (JStr (js ''TXN12345'')) (Fin 5000)
      = ([CaptureWithHeader (js ''Token sk_test_1'') (JStr (js ''TXN12345'')) (Fin 5000)], Inr True)"
    by (simp add: captureTransaction_bearer_def invalid_capture_input_def secureAxios_basic_post_def
        settle_def timed_def validateStatus_def created_def node_def) (simp add: js_def)
  have k: "js ''sk_test_1'' \<noteq> []"
    by (simp add: js_def)
  show ?thesis
    by (simp add: handler_bearer_def str_truthy_def k p fifty_major_units c res_json_def)
qed

theorem brackets_never_reach_gateway_witness:
  "(\<exists>m. validateTransactionId (JStr (js ''<script>'')) = Inl (Error m))
   \<and> (\<exists>s. JStr (js ''<TXN12345>'') = JStr s \<and> 1 \<le> length s \<and> length s \<le> 100
          \<and> JStr (js ''TXN12345'') = JStr (filter (\<lambda>c. c \<noteq> 60 \<and> c \<noteq> 62) (trim s)))
   \<and> (\<exists>h t a. CaptureWithHeader (js ''Token sk_test_1'') (JStr (js ''TXN12345'')) (Fin 5000)
                  = CaptureWithHeader h (JStr t) a \<and> 60 \<notin> set t \<and> 62 \<notin> set t)"
proof (intro conjI)
  have "60 \<in> set (js ''<script>'') \<or> 62 \<in> set (js ''<script>'')"
    by (simp add: js_def)
  then show "\<exists>m. validateTransactionId (JStr (js ''<script>'')) = Inl (Error m)"
    using brackets_never_reach_gateway [where s = "js ''<script>''"] by blast
next
  show "\<exists>s. JStr (js ''<TXN12345>'') = JStr s \<and> 1 \<le> length s \<and> length s \<le> 100
          \<and> JStr (js ''TXN12345'') = JStr (filter (\<lambda>c. c \<noteq> 60 \<and> c \<noteq> 62) (trim s))"
    using brackets_never_reach_gateway
        [where v = "JStr (js ''<TXN12345>'')" and r = "JStr (js ''TXN12345'')"]
      basic_strips_example
    by blast
next
  have "CaptureWithHeader (js ''Token sk_test_1'') (JStr (js ''TXN12345'')) (Fin 5000)
      \<in> set (snd (snd (handler node idle (post body_cents))))"
    and "CaptureWithHeader (js ''Token sk_test_1'') (JStr (js ''TXN12345'')) (Fin 5000)
      \<in> set (snd (handler_bearer node created (Some (js ''sk_test_1'')) (post body_major)))"
    by (simp_all add: handler_example handler_bearer_example)
  then show "\<exists>h t a. CaptureWithHeader (js ''Token sk_test_1'') (JStr (js ''TXN12345'')) (Fin 5000)
                  = CaptureWithHeader h (JStr t) a \<and> 60 \<notin> set t \<and> 62 \<notin> set t"
    using brackets_never_reach_gateway
        [where rt = node and w = idle and req = "post body_cents" and gw = created
           and k = "Some (js ''sk_test_1'')"]
    by blast
qed

lemma js_Nil: "js s = [] \<longleftrightarrow> s = []"
  by (simp add: js_def)

lemma exchange_token:
  "getAuthToken_loose node exchange (Some (js ''api_key_1''))
     = Some ([AuthTokens (js ''api_key_1'')], JStr (js ''tok_1''))"
  "getAuthToken_token node exchange (Some (js ''api_key_1''))
     = Some ([AuthTokens (js ''api_key_1'')], Inr (JStr (js ''tok_1'')))"
  by (simp_all add: getAuthToken_loose_def getAuthToken_token_def exchange_def axios_post_def
      settle_def validateStatus_def) (simp_all add: js_def)

theorem zero_minor_units_is_500_witness:
  "handler_loose node exchange (Some (js ''api_key_1'')) (post body_tiny) =
     Some (\<lparr>status = 500, success = False, error = Some (js ''Paymob capture API call failed.''),
            requestId = None\<rparr>,
           [AuthTokens (js ''api_key_1'')])
   \<and> handler_token node exchange (Some (js ''api_key_1'')) (post body_tiny) =
     Some (\<lparr>status = 500, success = False,
            error = Some (js ''Invalid input for capture: Missing transactionId or invalid amount.''),
            requestId = None\<rparr>,
           [AuthTokens (js ''api_key_1'')])
   \<and> handler_bearer node exchange (Some (js ''api_key_1'')) (post body_tiny) =
     (\<lparr>status = 500, success = False,
       error = Some (js ''Invalid input for capture: Missing transactionId or invalid amount.''),
       requestId = None\<rparr>,
      [])
   \<and> (\<exists>r sent. handler_loose node exchange (Some (js ''api_key_1'')) (post body_tiny) = Some (r, sent)
          \<and> status r = 500 \<and> \<not> success r)"
proof -
  have h: "truthy (body (post body_tiny)) \<and> JSON_parse node (body (post body_tiny)) =
        Inr (JObj [(js ''transactionId'', JStr (js ''TXN12345'')), (js ''amount'', JNum (Fin tiny))])
      \<and> get_prop node (JObj [(js ''transactionId'', JStr (js ''TXN12345'')), (js ''amount'', JNum (Fin tiny))])
            (js ''transactionId'') = Inr (JStr (js ''TXN12345''))
      \<and> js ''TXN12345'' \<noteq> []
      \<and> get_prop node (JObj [(js ''transactionId'', JStr (js ''TXN12345'')), (js ''amount'', JNum (Fin tiny))])
            (js ''amount'') = Inr (JNum (Fin tiny))"
    by (simp add: node_parse_tiny js_inject) (simp add: body_tiny_def js_def)
  have k: "str_truthy (Some (js ''api_key_1''))" "length (js ''TXN12345'') \<le> 100"
    "js ''api_key_1'' \<noteq> []"
    "follow (maxRedirects node) (exchange (AuthTokens (js ''api_key_1''))) \<noteq> None"
    by (simp_all add: str_truthy_def exchange_def js_def)
  note th = zero_minor_units_is_500
      [where rt = node and gw = exchange and req = "post body_tiny" and apiKey = "Some (js ''api_key_1'')"
         and t = "js ''TXN12345''" and key = "js ''api_key_1''"
         and d = "JObj [(js ''transactionId'', JStr (js ''TXN12345'')), (js ''amount'', JNum (Fin tiny))]",
       THEN conjunct2, THEN conjunct2, THEN conjunct2, THEN conjunct2, THEN mp, OF h]
  from th k show ?thesis
    by (simp add: exchange_token js_Nil)
qed

end
